theory Spec2Isabelle
  imports Main "HOL-Library.Sublist" "HOL-Library.Log_Nat"
begin

section \<open>JavaScript values used by the server\<close>

text \<open>
  Strings are lists of code units; every code unit is below 256 (the type \<^typ>\<open>char\<close>),
  so the two Unicode line separators above that range do not occur.  The functions below
  follow the built-ins of the same name that \<^verbatim>\<open>src/index.ts\<close> calls.
\<close>

definition bslash :: char where
  "bslash = CHR 0x5C"

text \<open>\<^verbatim>\<open>s.startsWith(p)\<close> and \<^verbatim>\<open>s.includes(p)\<close> on strings.\<close>

fun startsWith :: "string \<Rightarrow> string \<Rightarrow> bool" where
  "startsWith s [] = True"
| "startsWith [] (p # ps) = False"
| "startsWith (c # cs) (p # ps) = (c = p \<and> startsWith cs ps)"

fun includesStr :: "string \<Rightarrow> string \<Rightarrow> bool" where
  "includesStr [] p = (p = [])"
| "includesStr (c # cs) p = (startsWith (c # cs) p \<or> includesStr cs p)"

text \<open>\<^verbatim>\<open>s.replace(p, r)\<close> with a string pattern: only the first occurrence is replaced.\<close>

fun replaceFirst :: "string \<Rightarrow> string \<Rightarrow> string \<Rightarrow> string" where
  "replaceFirst [] p r = (if p = [] then r else [])"
| "replaceFirst (c # cs) p r =
     (if startsWith (c # cs) p then r @ drop (length p) (c # cs)
      else c # replaceFirst cs p r)"

text \<open>\<^verbatim>\<open>xs.join(sep)\<close> on an array of strings.\<close>

fun joinWith :: "string \<Rightarrow> string list \<Rightarrow> string" where
  "joinWith sep [] = []"
| "joinWith sep [x] = x"
| "joinWith sep (x # y # ys) = x @ sep @ joinWith sep (y # ys)"

text \<open>
  An argument that may be absent is a \<^typ>\<open>string option\<close>; \<open>None\<close> is \<^verbatim>\<open>undefined\<close>.
  \<open>tmpl\<close> is the interpolation \<^verbatim>\<open>${x}\<close> of a template literal, \<open>truthy\<close> the test
  \<^verbatim>\<open>x ? .. : ..\<close>, and \<open>orElse\<close> is \<^verbatim>\<open>x || d\<close>.
\<close>

fun tmpl :: "string option \<Rightarrow> string" where
  "tmpl None = ''undefined''"
| "tmpl (Some s) = s"

fun truthy :: "string option \<Rightarrow> bool" where
  "truthy None = False"
| "truthy (Some s) = (s \<noteq> [])"

fun orElse :: "string option \<Rightarrow> string \<Rightarrow> string" where
  "orElse None d = d"
| "orElse (Some s) d = (if s = [] then d else s)"

text \<open>
  A thrown value is an \<^verbatim>\<open>Error\<close> object: its name and its message.
  \<open>mkError m\<close> is \<^verbatim>\<open>new Error(m)\<close>; \<open>errorToString\<close> is what \<^verbatim>\<open>${error}\<close> and
  \<^verbatim>\<open>String(error)\<close> give (\<^verbatim>\<open>Error.prototype.toString\<close>).
\<close>

datatype js_error = Thrown (err_name: string) (err_message: string)

definition mkError :: "string \<Rightarrow> js_error" where
  "mkError m = Thrown ''Error'' m"

fun errorToString :: "js_error \<Rightarrow> string" where
  "errorToString (Thrown n m) =
     (if n = [] then m else if m = [] then n else n @ '': '' @ m)"

section \<open>Node's path module (POSIX)\<close>

text \<open>
  \<^verbatim>\<open>path.join\<close> joins the non-empty segments with a slash and normalises the result:
  empty and \<^verbatim>\<open>.\<close> segments vanish, \<^verbatim>\<open>..\<close> removes the segment before it, a trailing
  slash is kept, and an empty result is \<^verbatim>\<open>.\<close>.  A segment that is \<^verbatim>\<open>undefined\<close> makes
  \<^verbatim>\<open>path.join\<close> throw a \<^verbatim>\<open>TypeError\<close>.
\<close>

fun splitOn :: "char \<Rightarrow> string \<Rightarrow> string list" where
  "splitOn d [] = [[]]"
| "splitOn d (c # cs) =
     (case splitOn d cs of
        [] \<Rightarrow> (if c = d then [[], []] else [[c]])
      | w # ws \<Rightarrow> (if c = d then [] # w # ws else (c # w) # ws))"

fun normSegs :: "bool \<Rightarrow> string list \<Rightarrow> string list \<Rightarrow> string list" where
  "normSegs ab acc [] = rev acc"
| "normSegs ab acc (s # ss) =
     (if s = [] \<or> s = ''.'' then normSegs ab acc ss
      else if s = ''..'' then
        (case acc of
           [] \<Rightarrow> (if ab then normSegs ab [] ss else normSegs ab [''..''] ss)
         | a # as \<Rightarrow> (if a = ''..'' then normSegs ab (''..'' # a # as) ss
                     else normSegs ab as ss))
      else normSegs ab (s # acc) ss)"

definition path_normalize :: "string \<Rightarrow> string" where
  "path_normalize p =
     (if p = [] then ''.''
      else let ab = (hd p = CHR ''/'');
               tr = (last p = CHR ''/'');
               body = joinWith ''/'' (normSegs ab [] (splitOn (CHR ''/'') p))
           in if body = [] then (if ab then ''/'' else if tr then ''./'' else ''.'')
              else (if ab then ''/'' else []) @ body @ (if tr then ''/'' else []))"

definition path_join :: "string list \<Rightarrow> string" where
  "path_join segs = path_normalize (joinWith ''/'' (filter (\<lambda>s. s \<noteq> []) segs))"

text \<open>
  \<^verbatim>\<open>path.basename(p, ext)\<close> and \<^verbatim>\<open>path.extname(p)\<close>: the last segment of the path
  (trailing slashes ignored); the extension runs from the last dot of that segment, and
  is empty when there is no dot, when the only dot is the segment's first character, and
  for the segment \<^verbatim>\<open>..\<close>; \<^verbatim>\<open>basename\<close> removes \<open>ext\<close> from the end of the segment unless
  the segment is \<open>ext\<close> itself.
\<close>

definition lastSegment :: "string \<Rightarrow> string" where
  "lastSegment p =
     (let q = rev (dropWhile (\<lambda>c. c = CHR ''/'') (rev p))
      in rev (takeWhile (\<lambda>c. c \<noteq> CHR ''/'') (rev q)))"

definition path_extname :: "string \<Rightarrow> string" where
  "path_extname p =
     (let b = lastSegment p;
          e = rev (takeWhile (\<lambda>c. c \<noteq> CHR ''.'') (rev b))
      in if CHR ''.'' \<notin> set b \<or> b = ''..'' then []
         else if length e + 1 = length b then []
         else CHR ''.'' # e)"

definition path_basename :: "string \<Rightarrow> string \<Rightarrow> string" where
  "path_basename p ext =
     (let b = lastSegment p
      in if ext \<noteq> [] \<and> ext = p then []
         else if ext \<noteq> [] \<and> b \<noteq> ext \<and> length ext \<le> length b
            \<and> drop (length b - length ext) b = ext
         then take (length b - length ext) b else b)"

section \<open>The environment of one invocation\<close>

text \<open>
  Everything outside the repository is a field of the environment: the clock, the file
  system, the glob library and the external processes.  \<^verbatim>\<open>JSON.parse\<close> is a field too:
  on the route listing it either throws or yields the route table, an array of route
  objects as the collaborator prints them; on the output of the schema query it either
  throws or yields the array of column descriptions (a value without \<^verbatim>\<open>map\<close> makes the
  next statement throw, which is the same branch).

  The regular-expression engine of the runtime is a field as well, for the patterns that
  are not computed in this theory: \<open>RegExp_test e source flags subject\<close> is
  \<^verbatim>\<open>new RegExp(source, flags).test(subject)\<close>, and \<open>String_match_length e subject source flags\<close>
  is the number of matches that \<^verbatim>\<open>subject.match(new RegExp(source, flags))\<close> collects, 0 when
  it answers \<^verbatim>\<open>null\<close>.  Either throws the \<^verbatim>\<open>SyntaxError\<close> of the constructor when the source
  is not a pattern.
\<close>

record route =
  r_name :: "string option"
  r_method :: string
  r_uri :: string
  r_action :: string
  r_middleware :: "string list option"

record column =
  c_Field :: string
  c_Type :: string
  c_Null :: string
  c_Key :: string
  c_Default :: "string option"
  c_Extra :: string

record glob_call =
  g_pattern :: string
  g_cwd :: "string option"
  g_absolute :: bool
  g_ignore :: "string list"

record env =
  O2O_BASE_PATH :: string
  Date_now :: int
  execSync :: "string \<Rightarrow> js_error + string"
  JSON_parse_routes :: "string \<Rightarrow> js_error + route list"
  JSON_parse_schema :: "string \<Rightarrow> js_error + column list"
  existsSync :: "string \<Rightarrow> bool"
  globSync :: "glob_call \<Rightarrow> string list"
  readFileSync :: "string \<Rightarrow> js_error + string"
  RegExp_test :: "string \<Rightarrow> string \<Rightarrow> string \<Rightarrow> js_error + bool"
  String_match_length :: "string \<Rightarrow> string \<Rightarrow> string \<Rightarrow> js_error + nat"

text \<open>
  The module's mutable variables.  \<open>execLog\<close> is not a variable of the program: it records
  the commands handed to \<^verbatim>\<open>execSync\<close>, oldest first, so that a statement can count the
  external invocations.
\<close>

record server_state =
  routeCache :: "route list option"
  routeCacheTime :: int
  execLog :: "string list"

definition initial_state :: server_state where
  "initial_state = \<lparr>routeCache = None, routeCacheTime = 0, execLog = []\<rparr>"

definition VALID_DOMAINS :: "string list" where
  "VALID_DOMAINS = [''Core'', ''Customer'', ''Dealer'', ''Employer'']"

definition ROUTE_CACHE_TTL :: int where
  "ROUTE_CACHE_TTL = 5 * 60 * 1000"

section \<open>Helper methods\<close>

text \<open>
  \<^verbatim>\<open>getRoutes\<close>.  The cache variable holds \<^verbatim>\<open>null\<close> or an array, and an array is truthy
  also when it is empty: the cache is returned when it is set and younger than the TTL.
  Otherwise the \<^verbatim>\<open>try\<close> block runs, here \<open>refreshRoutes\<close>: the route listing is executed,
  its output is parsed, and only then are the two variables assigned.  An exception of
  either step is rethrown as \<^verbatim>\<open>Failed to get routes: ${error}\<close>.
\<close>

definition route_list_command :: string where
  "route_list_command = ''php artisan route:list --json''"

definition refreshRoutes ::
    "env \<Rightarrow> int \<Rightarrow> server_state \<Rightarrow> (js_error + route list) \<times> server_state" where
  "refreshRoutes e now st =
     (let st1 = st\<lparr>execLog := execLog st @ [route_list_command]\<rparr> in
      case execSync e route_list_command of
        Inl err \<Rightarrow> (Inl (mkError (''Failed to get routes: '' @ errorToString err)), st1)
      | Inr output \<Rightarrow>
          (case JSON_parse_routes e output of
             Inl err \<Rightarrow> (Inl (mkError (''Failed to get routes: '' @ errorToString err)), st1)
           | Inr parsed \<Rightarrow>
               (Inr parsed, st1\<lparr>routeCache := Some parsed, routeCacheTime := now\<rparr>)))"

definition getRoutes :: "env \<Rightarrow> server_state \<Rightarrow> (js_error + route list) \<times> server_state" where
  "getRoutes e st =
     (let now = Date_now e in
      case routeCache st of
        Some cached \<Rightarrow>
          if now - routeCacheTime st < ROUTE_CACHE_TTL then (Inr cached, st)
          else refreshRoutes e now st
      | None \<Rightarrow> refreshRoutes e now st)"

text \<open>
  \<^verbatim>\<open>extractDomain\<close>: the first match of the regular expression
  \<^verbatim>\<open>/App\\(Core|Customer|Dealer|Employer)\\/\<close>; the leftmost position wins, and at one
  position the alternatives are tried in the order written.
\<close>

definition matchDomainAt :: "string \<Rightarrow> string option" where
  "matchDomainAt s =
     find (\<lambda>d. startsWith s (''App'' @ [bslash] @ d @ [bslash]))
       [''Core'', ''Customer'', ''Dealer'', ''Employer'']"

fun extractDomain :: "string \<Rightarrow> string option" where
  "extractDomain [] = None"
| "extractDomain (c # cs) =
     (case matchDomainAt (c # cs) of
        Some d \<Rightarrow> Some d
      | None \<Rightarrow> extractDomain cs)"

definition relativePath :: "env \<Rightarrow> string \<Rightarrow> string" where
  "relativePath e absolutePath = replaceFirst absolutePath (O2O_BASE_PATH e @ ''/'') []"

text \<open>
  \<^verbatim>\<open>countLines\<close>: the number of pieces of \<^verbatim>\<open>content.split("\n")\<close>, and 0 when the file
  cannot be read.
\<close>

definition countLines :: "env \<Rightarrow> string \<Rightarrow> nat" where
  "countLines e filePath =
     (case readFileSync e filePath of
        Inl err \<Rightarrow> 0
      | Inr content \<Rightarrow> length (splitOn (CHR 0x0A) content))"

definition extractClassName :: "string \<Rightarrow> string" where
  "extractClassName filePath = path_basename filePath (path_extname filePath)"

section \<open>Results of the tools\<close>

text \<open>
  A handler returns \<^verbatim>\<open>{content: [{type: "text", text: JSON.stringify(result, null, 2)}]}\<close>.
  The serialisation is not modelled: the content of a response is the result object
  itself, one constructor for each shape, and \<open>Text\<close> for a response whose text is not a
  serialised object.  The \<open>files\<close> object of a structure listing is the list of its keys,
  in the order written, each with its array.  A response without the property
  \<^verbatim>\<open>isError\<close> has \<open>isError = False\<close>.
\<close>

record domain_structure =
  ds_domain :: string
  ds_path :: string
  ds_total_files :: nat
  ds_files :: "(string \<times> string list) list"

record route_details =
  rd_route_name :: "string option"
  rd_method :: string
  rd_uri :: string
  rd_controller :: string
  rd_middleware :: "string list"
  rd_domain :: "string option"

datatype number = Num rat | NaN | Infinity

record untested_file =
  uf_file :: string
  uf_file_type :: string
  uf_domain :: string
  uf_suggested_test_location :: string
  uf_complexity_score :: nat

record untested_report =
  ur_domain :: string
  ur_file_type_filter :: string
  ur_untested_files :: "untested_file list"
  ur_total_files :: nat
  ur_tested_files :: nat
  ur_untested_count :: nat
  ur_coverage_percentage :: number

record usage =
  u_file :: string
  u_file_type :: string
  u_domain :: "string option"
  u_usage_count :: nat

record component_usage =
  cu_component_name :: "string option"
  cu_definition_file :: string
  cu_definition_domain :: "string option"
  cu_usages :: "usage list"
  cu_total_usages :: nat
  cu_files_using :: nat
  cu_pages_using :: nat
  cu_components_using :: nat
  cu_domains_using :: "string list"

record formatted_column =
  fc_name :: string
  fc_type :: string
  fc_nullable :: bool
  fc_key :: string
  fc_default :: "string option"
  fc_extra :: string

record formatted_schema =
  fs_table :: "string option"
  fs_columns :: "formatted_column list"

datatype body =
    Text string
  | DomainStructure domain_structure
  | RouteDetails route_details
  | UntestedReport untested_report
  | ComponentUsage component_usage
  | Schema formatted_schema

record response =
  resp_content :: body
  isError :: bool

definition ok :: "body \<Rightarrow> response" where
  "ok b = \<lparr>resp_content = b, isError = False\<rparr>"

text \<open>
  The arguments of a call are an object whose properties are strings: for a property name
  \<open>k\<close>, \<open>a k\<close> is its value, and \<open>None\<close> when the object has no such property.
\<close>

type_synonym args = "string \<Rightarrow> string option"

definition squote :: char where
  "squote = CHR 0x27"

definition dquote :: char where
  "dquote = CHR 0x22"

section \<open>Existing tools\<close>

text \<open>
  \<^verbatim>\<open>queryDomainStructure\<close>.  \<^verbatim>\<open>VALID_DOMAINS.includes(domain)\<close> is false for an absent
  argument, whose interpolation is \<^verbatim>\<open>undefined\<close>.
\<close>

definition relativizeArray :: "env \<Rightarrow> string list \<Rightarrow> string list" where
  "relativizeArray e arr = map (\<lambda>f. replaceFirst f (O2O_BASE_PATH e @ ''/'') []) arr"

definition domainPhpFiles :: "env \<Rightarrow> string \<Rightarrow> string list" where
  "domainPhpFiles e domainPath =
     globSync e \<lparr>g_pattern = domainPath @ ''/**/*.php'', g_cwd = None, g_absolute = False,
                 g_ignore = [''**/vendor/**'', ''**/node_modules/**'']\<rparr>"

definition queryDomainStructure :: "env \<Rightarrow> args \<Rightarrow> js_error + response" where
  "queryDomainStructure e a =
     (case a ''domain'' of
        None \<Rightarrow>
          Inl (mkError (''Invalid domain '' @ [squote] @ ''undefined'' @ [squote]
                 @ ''. Valid domains: '' @ joinWith '', '' VALID_DOMAINS))
      | Some domain \<Rightarrow>
          if domain \<notin> set VALID_DOMAINS then
            Inl (mkError (''Invalid domain '' @ [squote] @ domain @ [squote]
                   @ ''. Valid domains: '' @ joinWith '', '' VALID_DOMAINS))
          else
            let domainPath = path_join [O2O_BASE_PATH e, ''app'', domain] in
            if \<not> existsSync e domainPath then
              Inl (mkError (''Domain path not found: '' @ domainPath))
            else
              let files = domainPhpFiles e domainPath;
                  structure_files =
                    [(''controllers'', filter (\<lambda>f. includesStr f ''Controller'') files),
                     (''repositories'',
                        filter (\<lambda>f. includesStr f ''Repository'' \<and> \<not> includesStr f ''Interface'') files),
                     (''repository_interfaces'',
                        filter (\<lambda>f. includesStr f ''Repository'' \<and> includesStr f ''Interface'') files),
                     (''transformers'', filter (\<lambda>f. includesStr f ''Transformer'') files),
                     (''requests'', filter (\<lambda>f. includesStr f ''Request'') files),
                     (''models'', filter (\<lambda>f. includesStr f ''/Models/'') files),
                     (''entities'', filter (\<lambda>f. includesStr f ''/Entities/'') files),
                     (''services'', filter (\<lambda>f. includesStr f ''Service'') files),
                     (''exceptions'', filter (\<lambda>f. includesStr f ''Exception'') files)]
              in Inr (ok (DomainStructure
                   \<lparr>ds_domain = domain, ds_path = domainPath, ds_total_files = length files,
                    ds_files = map (\<lambda>(k, arr). (k, relativizeArray e arr)) structure_files\<rparr>)))"

text \<open>
  \<^verbatim>\<open>queryDatabaseSchema\<close>.  \<^verbatim>\<open>output.trim()\<close> removes the white space of both ends.  The
  whole primary method stands in one \<^verbatim>\<open>try\<close>; its \<^verbatim>\<open>catch\<close> looks for a migration and
  reads the first one, outside any further \<^verbatim>\<open>try\<close>.
\<close>

definition isWhiteSpace :: "char \<Rightarrow> bool" where
  "isWhiteSpace c = (c \<in> set [CHR 0x09, CHR 0x0A, CHR 0x0B, CHR 0x0C, CHR 0x0D, CHR 0x20, CHR 0xA0])"

definition trim :: "string \<Rightarrow> string" where
  "trim s = rev (dropWhile isWhiteSpace (rev (dropWhile isWhiteSpace s)))"

definition describe_command :: "string option \<Rightarrow> string" where
  "describe_command table_name =
     ''php artisan tinker --execute='' @ [dquote] @ ''echo json_encode(DB::select(''
       @ [squote] @ ''DESCRIBE '' @ tmpl table_name @ [squote] @ ''));'' @ [dquote]"

definition formatColumn :: "column \<Rightarrow> formatted_column" where
  "formatColumn col =
     \<lparr>fc_name = c_Field col, fc_type = c_Type col, fc_nullable = (c_Null col = ''YES''),
      fc_key = c_Key col, fc_default = c_Default col, fc_extra = c_Extra col\<rparr>"

definition describeTable :: "env \<Rightarrow> string option \<Rightarrow> js_error + column list" where
  "describeTable e table_name =
     (case execSync e (describe_command table_name) of
        Inl err \<Rightarrow> Inl err
      | Inr output \<Rightarrow> JSON_parse_schema e (trim output))"

definition migrationFiles :: "env \<Rightarrow> string option \<Rightarrow> string list" where
  "migrationFiles e table_name =
     globSync e
       \<lparr>g_pattern = ''**/*_create_'' @ tmpl table_name @ ''_table.php'',
        g_cwd = Some (path_join [O2O_BASE_PATH e, ''database/migrations'']),
        g_absolute = True, g_ignore = []\<rparr>"

definition queryDatabaseSchema ::
    "env \<Rightarrow> args \<Rightarrow> server_state \<Rightarrow> (js_error + response) \<times> server_state" where
  "queryDatabaseSchema e a st =
     (let table_name = a ''table_name'';
          st1 = st\<lparr>execLog := execLog st @ [describe_command table_name]\<rparr>
      in case describeTable e table_name of
           Inr schema \<Rightarrow>
             (Inr (ok (Schema \<lparr>fs_table = table_name,
                               fs_columns = map formatColumn schema\<rparr>)), st1)
         | Inl error \<Rightarrow>
             (let migrations = migrationFiles e table_name
              in case migrations of
                   m # ms \<Rightarrow>
                     (case readFileSync e m of
                        Inl err \<Rightarrow> (Inl err, st1)
                      | Inr migrationContent \<Rightarrow>
                          (Inr (ok (Text (''Could not query database directly. Found migration file:''
                                  @ [CHR 0x0A, CHR 0x0A] @ migrationContent))), st1))
                 | [] \<Rightarrow>
                     (Inl (mkError (''Could not retrieve schema for table '' @ [squote]
                             @ tmpl table_name @ [squote] @ ''. Error: '' @ errorToString error)),
                      st1)))"

section \<open>Route discovery\<close>

text \<open>
  \<^verbatim>\<open>findRouteByName\<close>.  \<^verbatim>\<open>r.name === route_name\<close> compares a name that is a string or
  \<^verbatim>\<open>null\<close> with an argument that is a string or \<^verbatim>\<open>undefined\<close>: it holds for two equal
  strings only.  \<^verbatim>\<open>route.middleware || []\<close> is the array, or the empty array for \<^verbatim>\<open>null\<close>.
\<close>

fun strictEq :: "string option \<Rightarrow> string option \<Rightarrow> bool" where
  "strictEq (Some x) (Some y) = (x = y)"
| "strictEq x y = False"

definition findRouteByName ::
    "env \<Rightarrow> args \<Rightarrow> server_state \<Rightarrow> (js_error + response) \<times> server_state" where
  "findRouteByName e a st =
     (let route_name = a ''route_name'' in
      case getRoutes e st of
        (Inl err, st') \<Rightarrow> (Inl err, st')
      | (Inr routes, st') \<Rightarrow>
          (case find (\<lambda>r. strictEq (r_name r) route_name) routes of
             None \<Rightarrow>
               (Inl (mkError (''Route '' @ [squote] @ tmpl route_name @ [squote] @ '' not found'')),
                st')
           | Some route \<Rightarrow>
               (Inr (ok (RouteDetails
                  \<lparr>rd_route_name = r_name route, rd_method = r_method route,
                   rd_uri = r_uri route, rd_controller = r_action route,
                   rd_middleware = (case r_middleware route of None \<Rightarrow> [] | Some ms \<Rightarrow> ms),
                   rd_domain = extractDomain (r_action route)\<rparr>)), st')))"

section \<open>Test coverage\<close>

text \<open>
  Numbers.  \<^verbatim>\<open>testedCount / files.length\<close> and the product with 100 are computed in
  double precision: each operation yields the double nearest to the exact result, a tie
  going to the even significand.  \<open>fl64\<close> is that rounding at 53 bits of precision with
  an unbounded exponent, which is what the hardware does for the magnitudes that occur
  here (an array has fewer than \<open>2^32\<close> elements, so a quotient is 0 or at least \<open>2^-32\<close>,
  and a product is at most 100).  Integers of this size are doubles.
  \<open>floorLog2 x\<close> is the exponent of a positive \<open>x\<close>.
\<close>

definition floorLog2 :: "rat \<Rightarrow> int" where
  "floorLog2 x =
     (case quotient_of x of
        (a, b) \<Rightarrow> let d = bitlen a - bitlen b in if 2 powi d \<le> x then d else d - 1)"

definition roundTiesEven :: "rat \<Rightarrow> int" where
  "roundTiesEven x =
     (let f = \<lfloor>x\<rfloor>; r = x - of_int f
      in if r < 1 / 2 then f else if 1 / 2 < r then f + 1 else if even f then f else f + 1)"

definition fl64 :: "rat \<Rightarrow> rat" where
  "fl64 x =
     (if x = 0 then 0
      else let u = 2 powi (floorLog2 \<bar>x\<bar> - 52) in of_int (roundTiesEven (x / u)) * u)"

text \<open>
  \<^verbatim>\<open>a / b\<close> on two array lengths or counters, \<^verbatim>\<open>x * 100\<close>, \<^verbatim>\<open>Math.round(x)\<close> (the nearest
  integer, a tie going up) and \<^verbatim>\<open>x || 0\<close>.
\<close>

definition js_div :: "nat \<Rightarrow> nat \<Rightarrow> number" where
  "js_div a b =
     (if b = 0 then (if a = 0 then NaN else Infinity)
      else Num (fl64 (of_nat a / of_nat b)))"

fun js_times :: "number \<Rightarrow> rat \<Rightarrow> number" where
  "js_times (Num x) k = Num (fl64 (x * k))"
| "js_times NaN k = NaN"
| "js_times Infinity k = Infinity"

fun Math_round :: "number \<Rightarrow> number" where
  "Math_round (Num x) = Num (of_int \<lfloor>x + 1 / 2\<rfloor>)"
| "Math_round NaN = NaN"
| "Math_round Infinity = Infinity"

fun orZero :: "number \<Rightarrow> number" where
  "orZero (Num x) = Num x"
| "orZero NaN = Num 0"
| "orZero Infinity = Infinity"

definition coverage_percentage :: "nat \<Rightarrow> nat \<Rightarrow> number" where
  "coverage_percentage testedCount filesLength =
     orZero (Math_round (js_times (js_div testedCount filesLength) 100))"

text \<open>
  \<^verbatim>\<open>findUntestedFiles\<close>.  The domain is handed to \<^verbatim>\<open>path.join\<close> as it comes: only an
  absent one fails, with the \<^verbatim>\<open>TypeError\<close> of \<^verbatim>\<open>path.join\<close>.  The loop keeps the list of
  untested files and the counter of tested ones.
\<close>

definition unitTestsFor :: "env \<Rightarrow> string \<Rightarrow> string list" where
  "unitTestsFor e className =
     globSync e \<lparr>g_pattern = ''tests/Unit/**/*'' @ className @ ''*Test.php'',
                 g_cwd = Some (O2O_BASE_PATH e), g_absolute = False, g_ignore = []\<rparr>"

definition featureTestsFor :: "env \<Rightarrow> string \<Rightarrow> string list" where
  "featureTestsFor e className =
     globSync e \<lparr>g_pattern = ''tests/Feature/**/*'' @ className @ ''*Test.php'',
                 g_cwd = Some (O2O_BASE_PATH e), g_absolute = False, g_ignore = []\<rparr>"

definition untestedEntry ::
    "env \<Rightarrow> string \<Rightarrow> string option \<Rightarrow> string \<Rightarrow> string \<Rightarrow> untested_file" where
  "untestedEntry e domain file_type file className =
     \<lparr>uf_file = relativePath e file,
      uf_file_type = orElse file_type ''unknown'',
      uf_domain = domain,
      uf_suggested_test_location = ''tests/Unit/'' @ domain @ ''/'' @ className @ ''Test.php'',
      uf_complexity_score = countLines e file\<rparr>"

fun untestedLoop ::
    "env \<Rightarrow> string \<Rightarrow> string option \<Rightarrow> string list \<Rightarrow> untested_file list \<times> nat
      \<Rightarrow> untested_file list \<times> nat" where
  "untestedLoop e domain file_type [] acc = acc"
| "untestedLoop e domain file_type (file # files) (untestedFiles, testedCount) =
     (let className = extractClassName file;
          unitTests = unitTestsFor e className;
          featureTests = featureTestsFor e className
      in if length unitTests = 0 \<and> length featureTests = 0 then
           untestedLoop e domain file_type files
             (untestedFiles @ [untestedEntry e domain file_type file className], testedCount)
         else untestedLoop e domain file_type files (untestedFiles, testedCount + 1))"

definition candidateFiles :: "env \<Rightarrow> string \<Rightarrow> string option \<Rightarrow> string list" where
  "candidateFiles e domainPath file_type =
     (if file_type = Some ''controller'' then
        globSync e \<lparr>g_pattern = domainPath @ ''/**/*Controller.php'', g_cwd = None,
                    g_absolute = True, g_ignore = []\<rparr>
      else if file_type = Some ''repository'' then
        globSync e \<lparr>g_pattern = domainPath @ ''/**/*Repository.php'', g_cwd = None,
                    g_absolute = True, g_ignore = [''**/*Interface.php'']\<rparr>
      else if file_type = Some ''model'' then
        globSync e \<lparr>g_pattern = domainPath @ ''/**/Models/**/*.php'', g_cwd = None,
                    g_absolute = True, g_ignore = []\<rparr>
      else if file_type = Some ''service'' then
        globSync e \<lparr>g_pattern = domainPath @ ''/**/*Service.php'', g_cwd = None,
                    g_absolute = True, g_ignore = []\<rparr>
      else
        globSync e \<lparr>g_pattern = domainPath @ ''/**/*.php'', g_cwd = None,
                    g_absolute = True, g_ignore = [''**/vendor/**'', ''**/node_modules/**'']\<rparr>)"

definition findUntestedFiles :: "env \<Rightarrow> args \<Rightarrow> js_error + response" where
  "findUntestedFiles e a =
     (let file_type = a ''file_type'' in
      case a ''domain'' of
        None \<Rightarrow>
          Inl (Thrown ''TypeError''
                 (''The '' @ [dquote] @ ''path'' @ [dquote]
                    @ '' argument must be of type string. Received undefined''))
      | Some domain \<Rightarrow>
          let domainPath = path_join [O2O_BASE_PATH e, ''app'', domain];
              files = candidateFiles e domainPath file_type
          in case untestedLoop e domain file_type files ([], 0) of
               (untestedFiles, testedCount) \<Rightarrow>
                 Inr (ok (UntestedReport
                   \<lparr>ur_domain = domain,
                    ur_file_type_filter = orElse file_type ''all'',
                    ur_untested_files = untestedFiles,
                    ur_total_files = length files,
                    ur_tested_files = testedCount,
                    ur_untested_count = length untestedFiles,
                    ur_coverage_percentage = coverage_percentage testedCount (length files)\<rparr>)))"

section \<open>Component usage\<close>

text \<open>
  The two regular expressions of \<^verbatim>\<open>findComponentUsage\<close> are built from the component
  name, which is spliced into the source of the pattern as it is: \<^verbatim>\<open>import.*NAME.*from\<close>
  with the flag \<^verbatim>\<open>i\<close>, and \<^verbatim>\<open><NAME\<close> with the flags \<^verbatim>\<open>gi\<close>.  A character of the name that is
  a syntax character of patterns is therefore pattern syntax, and a name that leaves the
  source ill-formed makes the constructor throw.

  The two expressions are computed here for a name in which every character stands for
  itself, \<open>regexLiteral\<close>: an ASCII character that is not one of the syntax characters.
  With the flag \<^verbatim>\<open>i\<close> an ASCII character of the pattern matches itself and its other case;
  a dot matches every character but a line terminator; \<^verbatim>\<open>test\<close> asks for a match at some
  position; \<^verbatim>\<open>match\<close> with the flag \<^verbatim>\<open>g\<close> collects the matches from left to right, each
  search starting where the last match ended.  For every other name the two expressions
  are handed to the engine of the environment, \<open>importRegex_test\<close> and
  \<open>templateRegex_matches\<close> below.
\<close>

definition regexLiteral :: "string \<Rightarrow> bool" where
  "regexLiteral n =
     list_all (\<lambda>c. (of_char c :: nat) < 128
                  \<and> c \<notin> set (bslash # ''^$.*+?()[]{}|'')) n"

definition asciiUpper :: "char \<Rightarrow> char" where
  "asciiUpper c =
     (let k = (of_char c :: nat) in if 97 \<le> k \<and> k \<le> 122 then char_of (k - 32) else c)"

fun ciStartsWith :: "string \<Rightarrow> string \<Rightarrow> bool" where
  "ciStartsWith s [] = True"
| "ciStartsWith [] (p # ps) = False"
| "ciStartsWith (c # cs) (p # ps) = (asciiUpper c = asciiUpper p \<and> ciStartsWith cs ps)"

definition isLineTerminator :: "char \<Rightarrow> bool" where
  "isLineTerminator c = (c = CHR 0x0A \<or> c = CHR 0x0D)"

text \<open>\<open>dotStar k s\<close>: \<^verbatim>\<open>.*\<close> followed by the rest \<open>k\<close> of the pattern matches at the start of \<open>s\<close>.\<close>

fun dotStar :: "(string \<Rightarrow> bool) \<Rightarrow> string \<Rightarrow> bool" where
  "dotStar k [] = k []"
| "dotStar k (c # cs) = (k (c # cs) \<or> (\<not> isLineTerminator c \<and> dotStar k cs))"

definition importMatchAt :: "string \<Rightarrow> string \<Rightarrow> bool" where
  "importMatchAt n s =
     (ciStartsWith s ''import'' \<and>
      dotStar (\<lambda>t. ciStartsWith t n \<and>
                   dotStar (\<lambda>u. ciStartsWith u ''from'') (drop (length n) t))
        (drop 6 s))"

fun importRegexTest :: "string \<Rightarrow> string \<Rightarrow> bool" where
  "importRegexTest n [] = importMatchAt n []"
| "importRegexTest n (c # cs) = (importMatchAt n (c # cs) \<or> importRegexTest n cs)"

text \<open>
  \<open>countMatches k p s\<close>: the number of matches of the literal pattern \<open>p\<close> in \<open>s\<close>, the first
  \<open>k\<close> characters of \<open>s\<close> belonging to the match before.
\<close>

fun countMatches :: "nat \<Rightarrow> string \<Rightarrow> string \<Rightarrow> nat" where
  "countMatches k p [] = 0"
| "countMatches 0 p (c # cs) =
     (if ciStartsWith (c # cs) p then 1 + countMatches (length p - 1) p cs
      else countMatches 0 p cs)"
| "countMatches (Suc k) p (c # cs) = countMatches k p cs"

definition templateMatchCount :: "string \<Rightarrow> string \<Rightarrow> nat" where
  "templateMatchCount n content = countMatches 0 (''<'' @ n) content"

text \<open>
  \<^verbatim>\<open>new RegExp(`import.*${component_name}.*from`, "i").test(content)\<close>, and the length of
  \<^verbatim>\<open>content.match(new RegExp(`<${component_name}`, "gi"))\<close>, 0 for \<^verbatim>\<open>null\<close>, for every
  component name.
\<close>

definition importRegex_test :: "env \<Rightarrow> string \<Rightarrow> string \<Rightarrow> js_error + bool" where
  "importRegex_test e component_name content =
     (if regexLiteral component_name then Inr (importRegexTest component_name content)
      else RegExp_test e (''import.*'' @ component_name @ ''.*from'') ''i'' content)"

definition templateRegex_matches :: "env \<Rightarrow> string \<Rightarrow> string \<Rightarrow> js_error + nat" where
  "templateRegex_matches e component_name content =
     (if regexLiteral component_name then Inr (templateMatchCount component_name content)
      else String_match_length e content (''<'' @ component_name) ''gi'')"

text \<open>\<^verbatim>\<open>[...new Set(xs)]\<close>: the distinct elements in the order of their first occurrence.\<close>

definition setToArray :: "'a list \<Rightarrow> 'a list" where
  "setToArray xs = foldl (\<lambda>acc x. if x \<in> set acc then acc else acc @ [x]) [] xs"

text \<open>
  The loop over all component and page files.  A file that cannot be read ends the
  operation with the exception of \<^verbatim>\<open>readFileSync\<close>; a pattern that does not compile ends it
  with the exception of the constructor, the import pattern at the first file, the tag
  pattern at the first file whose content matches the import pattern.
\<close>

definition usageOf :: "env \<Rightarrow> string \<Rightarrow> nat \<Rightarrow> usage" where
  "usageOf e vueFile usageCount =
     \<lparr>u_file = relativePath e vueFile,
      u_file_type = (if includesStr vueFile ''/pages/'' then ''page'' else ''component''),
      u_domain = extractDomain vueFile,
      u_usage_count = usageCount\<rparr>"

definition allVueFiles :: "env \<Rightarrow> string list" where
  "allVueFiles e =
     globSync e \<lparr>g_pattern = ''app/**/UI/resources/js/**/*.vue'',
                 g_cwd = Some (O2O_BASE_PATH e), g_absolute = True, g_ignore = []\<rparr>"

fun scanUsages :: "env \<Rightarrow> string \<Rightarrow> string list \<Rightarrow> usage list \<Rightarrow> js_error + usage list" where
  "scanUsages e n [] usages = Inr usages"
| "scanUsages e n (vueFile # rest) usages =
     (case readFileSync e vueFile of
        Inl err \<Rightarrow> Inl err
      | Inr content \<Rightarrow>
          (case importRegex_test e n content of
             Inl err \<Rightarrow> Inl err
           | Inr imported \<Rightarrow>
               if imported then
                 (case templateRegex_matches e n content of
                    Inl err \<Rightarrow> Inl err
                  | Inr usageCount \<Rightarrow>
                      if usageCount > 0 then
                        scanUsages e n rest (usages @ [usageOf e vueFile usageCount])
                      else scanUsages e n rest usages)
               else scanUsages e n rest usages))"

definition findComponentUsage :: "env \<Rightarrow> args \<Rightarrow> js_error + response" where
  "findComponentUsage e a =
     (let component_name = a ''component_name'';
          domain = a ''domain'';
          searchPath =
            (if truthy domain
             then path_join [O2O_BASE_PATH e, ''app/'' @ tmpl domain @ ''/UI/resources/js'']
             else path_join [O2O_BASE_PATH e, ''app'']);
          componentFiles = globSync e
            \<lparr>g_pattern = ''**/'' @ tmpl component_name @ ''.vue'', g_cwd = Some searchPath,
             g_absolute = True, g_ignore = []\<rparr>
      in case componentFiles of
           [] \<Rightarrow>
             Inl (mkError (''Component '' @ [squote] @ tmpl component_name @ [squote]
                    @ '' not found''))
         | componentFile # others \<Rightarrow>
             (case scanUsages e (tmpl component_name) (allVueFiles e) [] of
                   Inl err \<Rightarrow> Inl err
                 | Inr usages \<Rightarrow>
                     Inr (ok (ComponentUsage
                       \<lparr>cu_component_name = component_name,
                        cu_definition_file = relativePath e componentFile,
                        cu_definition_domain = extractDomain componentFile,
                        cu_usages = usages,
                        cu_total_usages = foldl (\<lambda>sum u. sum + u_usage_count u) 0 usages,
                        cu_files_using = length usages,
                        cu_pages_using = length (filter (\<lambda>u. u_file_type u = ''page'') usages),
                        cu_components_using =
                          length (filter (\<lambda>u. u_file_type u = ''component'') usages),
                        cu_domains_using =
                          setToArray (map the (filter truthy (map u_domain usages)))\<rparr>))))"

section \<open>The dispatcher\<close>

text \<open>
  The handler of \<^verbatim>\<open>CallToolRequestSchema\<close>: a \<^verbatim>\<open>switch\<close> on the name inside a \<^verbatim>\<open>try\<close>,
  whose \<^verbatim>\<open>default\<close> throws, and a \<^verbatim>\<open>catch\<close> that builds the error response from the
  message of what was thrown.  Fourteen handlers are not needed below: they are
  the parameter \<open>others\<close>, a handler of any behaviour for each of them;
  \<open>otherToolName\<close> is the \<^verbatim>\<open>case\<close> label under which the switch calls each of them.
\<close>

datatype other_tool =
    FindRelatedFiles | RunPhpstan | FindRoutesForController | ListAllRoutes
  | FindServiceChain | FindTestsForFile | GetTestStructureInfo | FindUnusedComponents
  | ListInertiaPages | FindPageProps | ListApiEndpoints | FindEndpointDetails
  | FindTableUsage | FindEloquentScopes

type_synonym handler =
  "env \<Rightarrow> args \<Rightarrow> server_state \<Rightarrow> (js_error + response) \<times> server_state"

definition switchOnName :: "(other_tool \<Rightarrow> handler) \<Rightarrow> string \<Rightarrow> handler" where
  "switchOnName others name e a st =
     (if name = ''query_domain_structure'' then (queryDomainStructure e a, st)
      else if name = ''find_related_files'' then others FindRelatedFiles e a st
      else if name = ''query_database_schema'' then queryDatabaseSchema e a st
      else if name = ''run_phpstan'' then others RunPhpstan e a st
      else if name = ''find_route_by_name'' then findRouteByName e a st
      else if name = ''find_routes_for_controller'' then others FindRoutesForController e a st
      else if name = ''list_all_routes'' then others ListAllRoutes e a st
      else if name = ''find_service_chain'' then others FindServiceChain e a st
      else if name = ''find_tests_for_file'' then others FindTestsForFile e a st
      else if name = ''find_untested_files'' then (findUntestedFiles e a, st)
      else if name = ''get_test_structure_info'' then others GetTestStructureInfo e a st
      else if name = ''find_component_usage'' then (findComponentUsage e a, st)
      else if name = ''find_unused_components'' then others FindUnusedComponents e a st
      else if name = ''list_inertia_pages'' then others ListInertiaPages e a st
      else if name = ''find_page_props'' then others FindPageProps e a st
      else if name = ''list_api_endpoints'' then others ListApiEndpoints e a st
      else if name = ''find_endpoint_details'' then others FindEndpointDetails e a st
      else if name = ''find_table_usage'' then others FindTableUsage e a st
      else if name = ''find_eloquent_scopes'' then others FindEloquentScopes e a st
      else (Inl (mkError (''Unknown tool: '' @ name)), st))"

definition callTool ::
    "(other_tool \<Rightarrow> handler) \<Rightarrow> env \<Rightarrow> string \<Rightarrow> args \<Rightarrow> server_state
      \<Rightarrow> response \<times> server_state" where
  "callTool others e name a st =
     (case switchOnName others name e a st of
        (Inr r, st') \<Rightarrow> (r, st')
      | (Inl error, st') \<Rightarrow>
          (\<lparr>resp_content = Text (''Error executing '' @ name @ '': '' @ err_message error),
            isError = True\<rparr>, st'))"

definition otherToolName :: "other_tool \<Rightarrow> string" where
  "otherToolName t =
     (case t of
        FindRelatedFiles \<Rightarrow> ''find_related_files''
      | RunPhpstan \<Rightarrow> ''run_phpstan''
      | FindRoutesForController \<Rightarrow> ''find_routes_for_controller''
      | ListAllRoutes \<Rightarrow> ''list_all_routes''
      | FindServiceChain \<Rightarrow> ''find_service_chain''
      | FindTestsForFile \<Rightarrow> ''find_tests_for_file''
      | GetTestStructureInfo \<Rightarrow> ''get_test_structure_info''
      | FindUnusedComponents \<Rightarrow> ''find_unused_components''
      | ListInertiaPages \<Rightarrow> ''list_inertia_pages''
      | FindPageProps \<Rightarrow> ''find_page_props''
      | ListApiEndpoints \<Rightarrow> ''list_api_endpoints''
      | FindEndpointDetails \<Rightarrow> ''find_endpoint_details''
      | FindTableUsage \<Rightarrow> ''find_table_usage''
      | FindEloquentScopes \<Rightarrow> ''find_eloquent_scopes'')"

definition toolNames :: "string list" where
  "toolNames =
     [''query_domain_structure'', ''find_related_files'', ''query_database_schema'',
      ''run_phpstan'', ''find_route_by_name'', ''find_routes_for_controller'',
      ''list_all_routes'', ''find_service_chain'', ''find_tests_for_file'',
      ''find_untested_files'', ''get_test_structure_info'', ''find_component_usage'',
      ''find_unused_components'', ''list_inertia_pages'', ''find_page_props'',
      ''list_api_endpoints'', ''find_endpoint_details'', ''find_table_usage'',
      ''find_eloquent_scopes'']"

section \<open>Notions of the statements\<close>

text \<open>
  The rule of each bucket of a structure listing, by the key of the bucket, as the nine
  filters of \<^verbatim>\<open>queryDomainStructure\<close> have them; and the nine keys.
\<close>

definition bucketKeys :: "string list" where
  "bucketKeys =
     [''controllers'', ''repositories'', ''repository_interfaces'', ''transformers'',
      ''requests'', ''models'', ''entities'', ''services'', ''exceptions'']"

definition categoryRule :: "string \<Rightarrow> string \<Rightarrow> bool" where
  "categoryRule k f =
     (if k = ''controllers'' then includesStr f ''Controller''
      else if k = ''repositories'' then includesStr f ''Repository'' \<and> \<not> includesStr f ''Interface''
      else if k = ''repository_interfaces'' then
        includesStr f ''Repository'' \<and> includesStr f ''Interface''
      else if k = ''transformers'' then includesStr f ''Transformer''
      else if k = ''requests'' then includesStr f ''Request''
      else if k = ''models'' then includesStr f ''/Models/''
      else if k = ''entities'' then includesStr f ''/Entities/''
      else if k = ''services'' then includesStr f ''Service''
      else if k = ''exceptions'' then includesStr f ''Exception''
      else False)"

text \<open>The sum of the lengths of the buckets of a structure listing.\<close>

definition bucketTotal :: "domain_structure \<Rightarrow> nat" where
  "bucketTotal r = sum_list (map (\<lambda>(k, arr). length arr) (ds_files r))"

text \<open>
  The structure listing of a domain, each bucket written as the filter of the whole file
  set by the rule of its key.
\<close>

definition structureOf :: "env \<Rightarrow> string \<Rightarrow> domain_structure" where
  "structureOf e domain =
     (let domainPath = path_join [O2O_BASE_PATH e, ''app'', domain];
          files = domainPhpFiles e domainPath
      in \<lparr>ds_domain = domain, ds_path = domainPath, ds_total_files = length files,
          ds_files = map (\<lambda>k. (k, relativizeArray e (filter (categoryRule k) files))) bucketKeys\<rparr>)"

text \<open>
  The summary of a report of untested files: \<^verbatim>\<open>total_files\<close>, \<^verbatim>\<open>tested_files\<close>,
  \<^verbatim>\<open>untested_files\<close> and \<^verbatim>\<open>coverage_percentage\<close>.
\<close>

definition coverageSummary :: "js_error + response \<Rightarrow> (nat \<times> nat \<times> nat \<times> number) option" where
  "coverageSummary res =
     (case res of
        Inl err \<Rightarrow> None
      | Inr resp \<Rightarrow>
          (case resp_content resp of
             UntestedReport r \<Rightarrow>
               Some (ur_total_files r, ur_tested_files r, ur_untested_count r,
                     ur_coverage_percentage r)
           | _ \<Rightarrow> None))"

text \<open>A candidate file is tested when a unit test or a feature test matches its class name.\<close>

definition hasTests :: "env \<Rightarrow> string \<Rightarrow> bool" where
  "hasTests e file =
     (unitTestsFor e (extractClassName file) \<noteq> []
      \<or> featureTestsFor e (extractClassName file) \<noteq> [])"

text \<open>
  The content of a file that can be read, and the two conditions under which a component
  or page file enters the usages of the component named \<open>n\<close>: its content matches the import
  pattern, and the number of its matches of the tag pattern is positive.
\<close>

definition contentOf :: "env \<Rightarrow> string \<Rightarrow> string" where
  "contentOf e f = (case readFileSync e f of Inl err \<Rightarrow> [] | Inr c \<Rightarrow> c)"

definition importMatches :: "env \<Rightarrow> string \<Rightarrow> string \<Rightarrow> bool" where
  "importMatches e n f = (importRegex_test e n (contentOf e f) = Inr True)"

definition tagCount :: "env \<Rightarrow> string \<Rightarrow> string \<Rightarrow> nat" where
  "tagCount e n f =
     (case templateRegex_matches e n (contentOf e f) of Inl err \<Rightarrow> 0 | Inr k \<Rightarrow> k)"

definition contributes :: "env \<Rightarrow> string \<Rightarrow> string \<Rightarrow> bool" where
  "contributes e n f = (importMatches e n f \<and> 0 < tagCount e n f)"

text \<open>
  What the scan of one file throws, if anything: the exception of reading it, of compiling
  or running the import pattern on its content, or, when that pattern matches, of the tag
  pattern.  \<open>firstScanError\<close> is the first exception over a list of files, and
  \<open>definitionFiles\<close> the files that the first glob of \<^verbatim>\<open>findComponentUsage\<close> finds for the
  component.
\<close>

definition scanError :: "env \<Rightarrow> string \<Rightarrow> string \<Rightarrow> js_error option" where
  "scanError e n f =
     (case readFileSync e f of
        Inl err \<Rightarrow> Some err
      | Inr content \<Rightarrow>
          (case importRegex_test e n content of
             Inl err \<Rightarrow> Some err
           | Inr imported \<Rightarrow>
               if imported then
                 (case templateRegex_matches e n content of
                    Inl err \<Rightarrow> Some err
                  | Inr k \<Rightarrow> None)
               else None))"

fun firstScanError :: "env \<Rightarrow> string \<Rightarrow> string list \<Rightarrow> js_error option" where
  "firstScanError e n [] = None"
| "firstScanError e n (f # fs) =
     (case scanError e n f of Some err \<Rightarrow> Some err | None \<Rightarrow> firstScanError e n fs)"

definition definitionFiles :: "env \<Rightarrow> args \<Rightarrow> string list" where
  "definitionFiles e a =
     globSync e
       \<lparr>g_pattern = ''**/'' @ tmpl (a ''component_name'') @ ''.vue'',
        g_cwd = Some (if truthy (a ''domain'')
                      then path_join [O2O_BASE_PATH e,
                             ''app/'' @ tmpl (a ''domain'') @ ''/UI/resources/js'']
                      else path_join [O2O_BASE_PATH e, ''app'']),
        g_absolute = True, g_ignore = []\<rparr>"

section \<open>An example installation\<close>

text \<open>
  A small installation under \<^verbatim>\<open>/srv/o2o\<close>, on which the statements below are run: one
  named route, a few PHP files in each domain, one unit test, three Vue files and one
  migration.  The database cannot be reached, so the schema query fails.  Its
  regular-expression engine is asked for a component name with syntax characters only:
  it knows that the two patterns of the name \<^verbatim>\<open>Btn(\<close> do not compile, and finds no match
  of any other pattern.
\<close>

definition orderRoute :: route where
  "orderRoute =
     \<lparr>r_name = Some ''fleet.orders.index'', r_method = ''GET'', r_uri = ''/async/fleet/orders'',
      r_action = ''App'' @ [bslash] @ ''Employer'' @ [bslash] @ ''Controllers'' @ [bslash]
                   @ ''OrderController@index'',
      r_middleware = Some [''auth'']\<rparr>"

definition buttonVue :: string where
  "buttonVue = ''/srv/o2o/app/Employer/UI/resources/js/components/Button.vue''"

definition orderIndexVue :: string where
  "orderIndexVue = ''/srv/o2o/app/Employer/UI/resources/js/pages/Order/Index.vue''"

definition toolbarVue :: string where
  "toolbarVue = ''/srv/o2o/app/Dealer/UI/resources/js/components/Toolbar.vue''"

definition usersMigration :: string where
  "usersMigration = ''/srv/o2o/database/migrations/2014_10_12_000000_create_users_table.php''"

definition exampleGlob :: "glob_call \<Rightarrow> string list" where
  "exampleGlob g =
     (let p = g_pattern g in
      if p = ''/srv/o2o/app/Employer/**/*.php'' then
        [''/srv/o2o/app/Employer/Services/OrderServiceTest.php'']
      else if p = ''/srv/o2o/app/Core/**/*.php'' then
        [''/srv/o2o/app/Core/Services/PaymentServiceController.php'']
      else if p = ''/srv/o2o/app/Dealer/**/*.php'' then
        [''/srv/o2o/app/Dealer/Helpers/Money.php'']
      else if p = ''/srv/o2o/app/Customer/**/*.php'' then
        [''/srv/o2o/app/Customer/Controllers/BikeController.php'',
         ''/srv/o2o/app/Customer/Models/Invoice.php'']
      else if p = ''tests/Unit/**/*BikeController*Test.php'' then
        [''tests/Unit/Customer/BikeControllerTest.php'']
      else if p = ''**/Button.vue'' then [buttonVue]
      else if p = ''app/**/UI/resources/js/**/*.vue'' then [buttonVue, orderIndexVue, toolbarVue]
      else if p = ''**/*_create_users_table.php'' then [usersMigration]
      else [])"

definition exampleRead :: "string \<Rightarrow> js_error + string" where
  "exampleRead p =
     (if p = buttonVue then
        Inr ''<template><button class=btn><slot/></button></template>''
      else if p = orderIndexVue then
        Inr (''<script setup>'' @ [CHR 0x0A]
             @ ''import Button from @/components/Button.vue'' @ [CHR 0x0A]
             @ ''</script>'' @ [CHR 0x0A]
             @ ''<template><Button/><Button/></template>'')
      else if p = toolbarVue then
        Inr (''<script setup>'' @ [CHR 0x0A]
             @ ''import Button from @/components/Button.vue'' @ [CHR 0x0A]
             @ ''</script>'' @ [CHR 0x0A]
             @ ''<template><nav/></template>'')
      else if p = usersMigration then Inr ''Schema::create(users)''
      else Inl (Thrown ''Error'' (''ENOENT: no such file or directory, open '' @ p)))"

definition exampleEnv :: env where
  "exampleEnv =
     \<lparr>O2O_BASE_PATH = ''/srv/o2o'',
      Date_now = 1000000,
      execSync = (\<lambda>c. if c = route_list_command then Inr ''[{..}]''
                      else Inl (Thrown ''Error'' (''Command failed: '' @ c))),
      JSON_parse_routes = (\<lambda>s. if s = ''[{..}]'' then Inr [orderRoute]
                      else Inl (Thrown ''SyntaxError'' ''Unexpected end of JSON input'')),
      JSON_parse_schema = (\<lambda>s. Inl (Thrown ''SyntaxError'' ''Unexpected end of JSON input'')),
      existsSync = (\<lambda>p. p \<in> set [''/srv/o2o/app/Core'', ''/srv/o2o/app/Customer'',
                                   ''/srv/o2o/app/Dealer'', ''/srv/o2o/app/Employer'']),
      globSync = exampleGlob,
      readFileSync = exampleRead,
      RegExp_test = (\<lambda>source flags subject.
         if source = ''import.*Btn(.*from'' then
           Inl (Thrown ''SyntaxError''
             ''Invalid regular expression: /import.*Btn(.*from/i: Unterminated group'')
         else Inr False),
      String_match_length = (\<lambda>subject source flags.
         if source = ''<Btn('' then
           Inl (Thrown ''SyntaxError''
             ''Invalid regular expression: /<Btn(/gi: Unterminated group'')
         else Inr 0)\<rparr>"

definition argsOf :: "(string \<times> string) list \<Rightarrow> args" where
  "argsOf kvs = map_of kvs"

definition noOthers :: "other_tool \<Rightarrow> handler" where
  "noOthers t e a st = (Inl (mkError ''not implemented''), st)"

definition warmState :: server_state where
  "warmState = \<lparr>routeCache = Some [orderRoute], routeCacheTime = 1000000,
                 execLog = [route_list_command]\<rparr>"

definition timeoutError :: js_error where
  "timeoutError = Thrown ''Error'' ''spawnSync /bin/sh ETIMEDOUT''"

definition brokenEnv :: env where
  "brokenEnv = exampleEnv\<lparr>Date_now := 1300000, execSync := (\<lambda>c. Inl timeoutError)\<rparr>"

definition employerAction :: string where
  "employerAction = ''App'' @ [bslash] @ ''Employer'' @ [bslash] @ ''Controllers'' @ [bslash]
                   @ ''OrderController@index''"

text \<open>The same installation with a migration file that cannot be read.\<close>

definition lockedEnv :: env where
  "lockedEnv =
     exampleEnv\<lparr>readFileSync :=
       (\<lambda>p. Inl (Thrown ''Error'' (''EACCES: permission denied, open '' @ p)))\<rparr>"

text \<open>
  An installation whose Dealer domain holds forty model files, \<^verbatim>\<open>Model00.php\<close> to
  \<^verbatim>\<open>Model39.php\<close>, the first twenty-three of which have a unit test.
\<close>

definition modelName :: "nat \<Rightarrow> string" where
  "modelName i = ''Model'' @ [char_of (48 + i div 10), char_of (48 + i mod 10)]"

definition fortyFiles :: "string list" where
  "fortyFiles = map (\<lambda>i. ''/srv/o2o/app/Dealer/Models/'' @ modelName i @ ''.php'') [0..<40]"

definition fortyGlob :: "glob_call \<Rightarrow> string list" where
  "fortyGlob g =
     (if g_pattern g = ''/srv/o2o/app/Dealer/**/*.php'' then fortyFiles
      else case find (\<lambda>i. g_pattern g = ''tests/Unit/**/*'' @ modelName i @ ''*Test.php'')
                  [0..<23] of
             Some i \<Rightarrow> [''tests/Unit/Dealer/'' @ modelName i @ ''Test.php'']
           | None \<Rightarrow> [])"

definition fortyEnv :: env where
  "fortyEnv = exampleEnv\<lparr>globSync := fortyGlob\<rparr>"

text \<open>
  The same installation with a second route, whose \<^verbatim>\<open>middleware\<close> is \<^verbatim>\<open>null\<close>, and the state
  after its first route listing.
\<close>

definition pingRoute :: route where
  "pingRoute =
     \<lparr>r_name = Some ''health.ping'', r_method = ''GET|HEAD'', r_uri = ''health/ping'',
      r_action = ''Closure'', r_middleware = None\<rparr>"

definition pingEnv :: env where
  "pingEnv =
     exampleEnv\<lparr>JSON_parse_routes :=
       (\<lambda>s. if s = ''[{..}]'' then Inr [orderRoute, pingRoute]
            else Inl (Thrown ''SyntaxError'' ''Unexpected end of JSON input''))\<rparr>"

definition pingState :: server_state where
  "pingState = \<lparr>routeCache = Some [orderRoute, pingRoute], routeCacheTime = 1000000,
                 execLog = [route_list_command]\<rparr>"

text \<open>
  The same installation with one more component, in the file \<^verbatim>\<open>Btn(.vue\<close>.
\<close>

definition parenVue :: string where
  "parenVue = ''/srv/o2o/app/Dealer/UI/resources/js/components/Btn(.vue''"

definition parenGlob :: "glob_call \<Rightarrow> string list" where
  "parenGlob g =
     (if g_pattern g = ''**/Btn(.vue'' then [parenVue]
      else if g_pattern g = ''app/**/UI/resources/js/**/*.vue'' then exampleGlob g @ [parenVue]
      else exampleGlob g)"

definition parenEnv :: env where
  "parenEnv =
     exampleEnv\<lparr>globSync := parenGlob,
       readFileSync := (\<lambda>p. if p = parenVue then Inr ''<template><button/></template>''
                            else exampleRead p)\<rparr>"

section \<open>Strings and domain extraction\<close>

lemma startsWith_prefix: "startsWith s p = prefix p s"
  by (induction s p rule: startsWith.induct) auto

lemma includesStr_sublist: "includesStr s p = sublist p s"
  by (induction s) (auto simp: startsWith_prefix sublist_Cons_right)

lemma matchDomainAt_Some:
  "matchDomainAt s = Some d \<Longrightarrow>
     d \<in> set VALID_DOMAINS \<and> startsWith s (''App'' @ [bslash] @ d @ [bslash])"
  unfolding matchDomainAt_def VALID_DOMAINS_def
  by (auto simp: find_Some_iff nth_Cons' split: if_splits)

lemma matchDomainAt_None:
  "matchDomainAt s = None \<longleftrightarrow>
     (\<forall>d \<in> set VALID_DOMAINS. \<not> startsWith s (''App'' @ [bslash] @ d @ [bslash]))"
  unfolding matchDomainAt_def VALID_DOMAINS_def
  by (simp add: find_None_iff)

lemma extractDomain_Some:
  "extractDomain s = Some d \<Longrightarrow>
     d \<in> set VALID_DOMAINS \<and> includesStr s (''App'' @ [bslash] @ d @ [bslash])"
proof (induction s)
  case Nil
  then show ?case by simp
next
  case (Cons c cs)
  show ?case
  proof (cases "matchDomainAt (c # cs)")
    case None
    with Cons show ?thesis by simp
  next
    case (Some d')
    with Cons.prems have "d' = d" by simp
    with Some matchDomainAt_Some[of "c # cs" d] show ?thesis by simp
  qed
qed

lemma extractDomain_None:
  "extractDomain s = None \<longleftrightarrow>
     (\<forall>d \<in> set VALID_DOMAINS. \<not> includesStr s (''App'' @ [bslash] @ d @ [bslash]))"
proof (induction s)
  case Nil
  then show ?case by (simp add: VALID_DOMAINS_def)
next
  case (Cons c cs)
  show ?case
  proof (cases "matchDomainAt (c # cs)")
    case None
    then show ?thesis using Cons matchDomainAt_None[of "c # cs"] by auto
  next
    case (Some d')
    then show ?thesis using matchDomainAt_Some[OF Some] by auto
  qed
qed

section \<open>The route cache\<close>





lemma getRoutes_failure:
  "getRoutes e st = (Inl x, st') \<Longrightarrow>
     (\<exists>cause. (execSync e route_list_command = Inl cause
                \<or> (\<exists>out. execSync e route_list_command = Inr out
                          \<and> JSON_parse_routes e out = Inl cause))
              \<and> x = mkError (''Failed to get routes: '' @ errorToString cause))
     \<and> routeCache st' = routeCache st \<and> routeCacheTime st' = routeCacheTime st"
  by (auto simp: getRoutes_def refreshRoutes_def Let_def split: option.splits sum.splits if_splits)

lemma getRoutes_refresh_fails:
  "routeCache st = None \<or> ROUTE_CACHE_TTL \<le> Date_now e - routeCacheTime st
   \<Longrightarrow> execSync e route_list_command = Inl cause
       \<or> (\<exists>out. execSync e route_list_command = Inr out \<and> JSON_parse_routes e out = Inl cause)
   \<Longrightarrow> fst (getRoutes e st) = Inl (mkError (''Failed to get routes: '' @ errorToString cause))"
  by (auto simp: getRoutes_def refreshRoutes_def Let_def split: option.splits sum.splits if_splits)


lemma getRoutes_example_first: "getRoutes exampleEnv initial_state = (Inr [orderRoute], warmState)"
  by (simp add: getRoutes_def refreshRoutes_def exampleEnv_def initial_state_def warmState_def ROUTE_CACHE_TTL_def
      route_list_command_def)


text \<open>
  Claim C3.  Whenever \<^verbatim>\<open>getRoutes\<close> fails, the external process or the parsing of its
  output has thrown, the error is \<^verbatim>\<open>Failed to get routes:\<close> followed by that cause, and the
  cached table and its time are what they were before the call.  Conversely, when a
  refresh is due and either step throws, the call fails with that error.
\<close>

theorem getRoutes_failure_isolation:
  "(\<forall>x st'. getRoutes e st = (Inl x, st') \<longrightarrow>
      (\<exists>cause. (execSync e route_list_command = Inl cause
                 \<or> (\<exists>out. execSync e route_list_command = Inr out
                           \<and> JSON_parse_routes e out = Inl cause))
               \<and> x = mkError (''Failed to get routes: '' @ errorToString cause))
      \<and> routeCache st' = routeCache st \<and> routeCacheTime st' = routeCacheTime st)
   \<and> (\<forall>cause. (routeCache st = None \<or> ROUTE_CACHE_TTL \<le> Date_now e - routeCacheTime st)
        \<and> (execSync e route_list_command = Inl cause
            \<or> (\<exists>out. execSync e route_list_command = Inr out
                      \<and> JSON_parse_routes e out = Inl cause)) \<longrightarrow>
        fst (getRoutes e st) = Inl (mkError (''Failed to get routes: '' @ errorToString cause)))"
  using getRoutes_failure[of e st] getRoutes_refresh_fails[of st e] by blast

theorem getRoutes_failure_isolation_witness:
  "getRoutes brokenEnv warmState
     = (Inl (mkError ''Failed to get routes: Error: spawnSync /bin/sh ETIMEDOUT''),
        warmState\<lparr>execLog := [route_list_command, route_list_command]\<rparr>)
   \<and> routeCache (snd (getRoutes brokenEnv warmState)) = Some [orderRoute]
   \<and> routeCacheTime (snd (getRoutes brokenEnv warmState)) = 1000000"
proof -
  have run: "getRoutes brokenEnv warmState
     = (Inl (mkError ''Failed to get routes: Error: spawnSync /bin/sh ETIMEDOUT''),
        warmState\<lparr>execLog := [route_list_command, route_list_command]\<rparr>)"
    by (simp add: getRoutes_def refreshRoutes_def brokenEnv_def exampleEnv_def warmState_def ROUTE_CACHE_TTL_def
        timeoutError_def)
  from getRoutes_failure_isolation[of brokenEnv warmState] run
  have "routeCache (warmState\<lparr>execLog := [route_list_command, route_list_command]\<rparr>) = routeCache warmState
      \<and> routeCacheTime (warmState\<lparr>execLog := [route_list_command, route_list_command]\<rparr>) = routeCacheTime warmState"
    by blast
  with run show ?thesis by (simp add: warmState_def)
qed

section \<open>Route lookup\<close>

lemma findRouteByName_found:
  "getRoutes e st = (Inr routes, st') \<Longrightarrow>
   find (\<lambda>r. strictEq (r_name r) (a ''route_name'')) routes = Some route \<Longrightarrow>
   findRouteByName e a st =
     (Inr (ok (RouteDetails
        \<lparr>rd_route_name = r_name route, rd_method = r_method route, rd_uri = r_uri route,
         rd_controller = r_action route,
         rd_middleware = (case r_middleware route of None \<Rightarrow> [] | Some ms \<Rightarrow> ms),
         rd_domain = extractDomain (r_action route)\<rparr>)), st')"
  by (simp add: findRouteByName_def Let_def)

lemma findRouteByName_absent:
  "getRoutes e st = (Inr routes, st') \<Longrightarrow>
   find (\<lambda>r. strictEq (r_name r) (a ''route_name'')) routes = None \<Longrightarrow>
   findRouteByName e a st =
     (Inl (mkError (''Route '' @ [squote] @ tmpl (a ''route_name'') @ [squote] @ '' not found'')), st')"
  by (simp add: findRouteByName_def Let_def)

lemma strictEq_Some: "strictEq x (Some n) = (x = Some n)"
  by (cases x) auto

lemma find_name_None:
  "find (\<lambda>r. strictEq (r_name r) (Some n)) routes = None \<longleftrightarrow> Some n \<notin> r_name ` set routes"
  by (force simp: find_None_iff strictEq_Some)

lemma find_name_Some:
  "find (\<lambda>r. strictEq (r_name r) (Some n)) routes = Some route \<Longrightarrow>
     route \<in> set routes \<and> r_name route = Some n"
  by (auto simp: find_Some_iff strictEq_Some)

lemma extractDomain_example: "extractDomain employerAction = Some ''Employer''"
  by (simp add: employerAction_def matchDomainAt_def bslash_def)

lemma getRoutes_ping: "getRoutes pingEnv initial_state = (Inr [orderRoute, pingRoute], pingState)"
  by (simp add: getRoutes_def refreshRoutes_def pingEnv_def exampleEnv_def initial_state_def
      pingState_def ROUTE_CACHE_TTL_def route_list_command_def)

lemma find_ping:
  "find (\<lambda>r. r_name r = Some ''health.ping'') [orderRoute, pingRoute] = Some pingRoute"
  by (simp add: orderRoute_def pingRoute_def)

lemma extractDomain_Closure: "extractDomain ''Closure'' = None"
  by (simp add: matchDomainAt_def)

text \<open>
  Claim C7 as stated does not hold: the middleware of a route is not always returned
  unchanged.  The route \<^verbatim>\<open>health.ping\<close> of the table has the middleware \<^verbatim>\<open>null\<close>, and the
  answer for it carries the empty array, which is the answer for a route whose middleware
  is the empty array.
\<close>

theorem findRouteByName_null_middleware_counterexample:
  "getRoutes pingEnv initial_state = (Inr [orderRoute, pingRoute], pingState)
   \<and> find (\<lambda>r. r_name r = Some ''health.ping'') [orderRoute, pingRoute] = Some pingRoute
   \<and> r_middleware pingRoute = None
   \<and> findRouteByName pingEnv (argsOf [(''route_name'', ''health.ping'')]) initial_state =
       (Inr (ok (RouteDetails
          \<lparr>rd_route_name = Some ''health.ping'', rd_method = ''GET|HEAD'',
           rd_uri = ''health/ping'', rd_controller = ''Closure'',
           rd_middleware = [], rd_domain = None\<rparr>)), pingState)
   \<and> Some (rd_middleware
        \<lparr>rd_route_name = Some ''health.ping'', rd_method = ''GET|HEAD'',
         rd_uri = ''health/ping'', rd_controller = ''Closure'',
         rd_middleware = [], rd_domain = None\<rparr>) \<noteq> r_middleware pingRoute"
proof -
  have "findRouteByName pingEnv (argsOf [(''route_name'', ''health.ping'')]) initial_state =
       (Inr (ok (RouteDetails
          \<lparr>rd_route_name = Some ''health.ping'', rd_method = ''GET|HEAD'',
           rd_uri = ''health/ping'', rd_controller = ''Closure'',
           rd_middleware = [], rd_domain = None\<rparr>)), pingState)"
    using extractDomain_Closure
    by (simp add: findRouteByName_def getRoutes_ping argsOf_def orderRoute_def pingRoute_def)
  then show ?thesis
    using getRoutes_ping find_ping by (simp add: pingRoute_def)
qed

text \<open>
  Claim C7, amended.  On a route table that \<^verbatim>\<open>getRoutes\<close> returns, \<^verbatim>\<open>findRouteByName\<close> with
  the name of a route of the table answers with the first route of that name: its method,
  its URI and its action unchanged, its middleware unchanged when that is an array and the
  empty array when it is \<^verbatim>\<open>null\<close>, and the domain that \<^verbatim>\<open>extractDomain\<close> reads from the
  action.  That domain, when there is one, is one of
  the four tokens and stands in the action between \<^verbatim>\<open>App\\<close> and a backslash; there is none
  exactly when no token stands so.  With a name that no route has, the operation fails with
  \<^verbatim>\<open>Route '...' not found\<close>.  The action of the scenario yields \<^verbatim>\<open>Employer\<close>.
\<close>

theorem findRouteByName_lookup:
  assumes routes: "getRoutes e st = (Inr routes, st')"
      and arg: "a ''route_name'' = Some n"
  shows "(\<forall>route. find (\<lambda>r. r_name r = Some n) routes = Some route \<longrightarrow>
            route \<in> set routes \<and> r_name route = Some n
          \<and> findRouteByName e a st =
              (Inr (ok (RouteDetails
                 \<lparr>rd_route_name = Some n, rd_method = r_method route, rd_uri = r_uri route,
                  rd_controller = r_action route,
                  rd_middleware = (case r_middleware route of None \<Rightarrow> [] | Some ms \<Rightarrow> ms),
                  rd_domain = extractDomain (r_action route)\<rparr>)), st')
          \<and> (\<forall>d. extractDomain (r_action route) = Some d \<longrightarrow>
                d \<in> set VALID_DOMAINS
              \<and> includesStr (r_action route) (''App'' @ [bslash] @ d @ [bslash]))
          \<and> (extractDomain (r_action route) = None \<longleftrightarrow>
                (\<forall>d \<in> set VALID_DOMAINS.
                   \<not> includesStr (r_action route) (''App'' @ [bslash] @ d @ [bslash]))))
       \<and> (Some n \<notin> r_name ` set routes \<longrightarrow>
            findRouteByName e a st =
              (Inl (mkError (''Route '' @ [squote] @ n @ [squote] @ '' not found'')), st'))
       \<and> extractDomain (''App'' @ [bslash] @ ''Employer'' @ [bslash] @ ''Controllers''
            @ [bslash] @ ''OrderController@index'') = Some ''Employer''"
proof -
  have eq: "(\<lambda>r. strictEq (r_name r) (a ''route_name'')) = (\<lambda>r. r_name r = Some n)"
    by (simp add: arg strictEq_Some)
  have found: "findRouteByName e a st =
              (Inr (ok (RouteDetails
                 \<lparr>rd_route_name = Some n, rd_method = r_method route, rd_uri = r_uri route,
                  rd_controller = r_action route,
                  rd_middleware = (case r_middleware route of None \<Rightarrow> [] | Some ms \<Rightarrow> ms),
                  rd_domain = extractDomain (r_action route)\<rparr>)), st')
            \<and> route \<in> set routes \<and> r_name route = Some n"
    if "find (\<lambda>r. r_name r = Some n) routes = Some route" for route
    using findRouteByName_found[OF routes, of a route] that find_name_Some[of n routes route]
    by (simp add: eq strictEq_Some)
  have absent: "findRouteByName e a st =
              (Inl (mkError (''Route '' @ [squote] @ n @ [squote] @ '' not found'')), st')"
    if "Some n \<notin> r_name ` set routes"
    using findRouteByName_absent[OF routes, of a] that find_name_None[of n routes]
    by (simp add: arg)
  have ex: "extractDomain (''App'' @ [bslash] @ ''Employer'' @ [bslash] @ ''Controllers''
            @ [bslash] @ ''OrderController@index'') = Some ''Employer''"
    using extractDomain_example by (simp add: employerAction_def)
  show ?thesis
    using found absent ex extractDomain_Some extractDomain_None by blast
qed

theorem findRouteByName_lookup_witness:
  "findRouteByName exampleEnv (argsOf [(''route_name'', ''fleet.orders.index'')]) initial_state =
     (Inr (ok (RouteDetails
        \<lparr>rd_route_name = Some ''fleet.orders.index'', rd_method = ''GET'',
         rd_uri = ''/async/fleet/orders'', rd_controller = employerAction,
         rd_middleware = [''auth''], rd_domain = Some ''Employer''\<rparr>)), warmState)
   \<and> findRouteByName exampleEnv (argsOf [(''route_name'', ''fleet.orders.show'')]) initial_state =
     (Inl (mkError (''Route '' @ [squote] @ ''fleet.orders.show'' @ [squote] @ '' not found'')),
      warmState)
   \<and> findRouteByName pingEnv (argsOf [(''route_name'', ''health.ping'')]) initial_state =
     (Inr (ok (RouteDetails
        \<lparr>rd_route_name = Some ''health.ping'', rd_method = ''GET|HEAD'',
         rd_uri = ''health/ping'', rd_controller = ''Closure'',
         rd_middleware = [], rd_domain = None\<rparr>)), pingState)"
proof -
  have found: "find (\<lambda>r. r_name r = Some ''fleet.orders.index'') [orderRoute] = Some orderRoute"
    by (simp add: orderRoute_def)
  have absent: "Some ''fleet.orders.show'' \<notin> r_name ` set [orderRoute]"
    by (simp add: orderRoute_def)
  have arg1: "argsOf [(''route_name'', ''fleet.orders.index'')] ''route_name''
      = Some ''fleet.orders.index''"
    by (simp add: argsOf_def)
  have arg2: "argsOf [(''route_name'', ''fleet.orders.show'')] ''route_name''
      = Some ''fleet.orders.show''"
    by (simp add: argsOf_def)
  have route: "orderRoute =
     \<lparr>r_name = Some ''fleet.orders.index'', r_method = ''GET'', r_uri = ''/async/fleet/orders'',
      r_action = employerAction, r_middleware = Some [''auth'']\<rparr>"
    by (simp add: orderRoute_def employerAction_def)
  note t1 = findRouteByName_lookup[where a = "argsOf [(''route_name'', ''fleet.orders.index'')]"
      and n = "''fleet.orders.index''", OF getRoutes_example_first arg1]
  note t2 = findRouteByName_lookup[where a = "argsOf [(''route_name'', ''fleet.orders.show'')]"
      and n = "''fleet.orders.show''", OF getRoutes_example_first arg2]
  have a: "findRouteByName exampleEnv (argsOf [(''route_name'', ''fleet.orders.index'')]) initial_state =
     (Inr (ok (RouteDetails
        \<lparr>rd_route_name = Some ''fleet.orders.index'', rd_method = r_method orderRoute,
         rd_uri = r_uri orderRoute, rd_controller = r_action orderRoute,
         rd_middleware = (case r_middleware orderRoute of None \<Rightarrow> [] | Some ms \<Rightarrow> ms),
         rd_domain = extractDomain (r_action orderRoute)\<rparr>)), warmState)"
    using t1[THEN conjunct1, THEN spec, THEN mp, OF found] by (elim conjE)
  have b: "findRouteByName exampleEnv (argsOf [(''route_name'', ''fleet.orders.show'')]) initial_state =
     (Inl (mkError (''Route '' @ [squote] @ ''fleet.orders.show'' @ [squote] @ '' not found'')),
      warmState)"
    using t2[THEN conjunct2, THEN conjunct1, THEN mp, OF absent] .
  have c: "extractDomain (r_action orderRoute) = Some ''Employer''"
    using extractDomain_example by (simp add: route)
  have arg3: "argsOf [(''route_name'', ''health.ping'')] ''route_name'' = Some ''health.ping''"
    by (simp add: argsOf_def)
  note t3 = findRouteByName_lookup[where a = "argsOf [(''route_name'', ''health.ping'')]"
      and n = "''health.ping''", OF getRoutes_ping arg3]
  have d: "findRouteByName pingEnv (argsOf [(''route_name'', ''health.ping'')]) initial_state =
     (Inr (ok (RouteDetails
        \<lparr>rd_route_name = Some ''health.ping'', rd_method = r_method pingRoute,
         rd_uri = r_uri pingRoute, rd_controller = r_action pingRoute,
         rd_middleware = (case r_middleware pingRoute of None \<Rightarrow> [] | Some ms \<Rightarrow> ms),
         rd_domain = extractDomain (r_action pingRoute)\<rparr>)), pingState)"
    using t3[THEN conjunct1, THEN spec, THEN mp, OF find_ping] by (elim conjE)
  have e: "extractDomain (r_action pingRoute) = None"
    using extractDomain_Closure by (simp add: pingRoute_def)
  show ?thesis
    unfolding a b c d e by (simp add: route pingRoute_def)
qed

lemma switchOnName_unknown:
  "name \<notin> set toolNames \<Longrightarrow>
     switchOnName others name e a st = (Inl (mkError (''Unknown tool: '' @ name)), st)"
  by (simp add: toolNames_def switchOnName_def)

lemma callTool_Inl:
  "switchOnName others name e a st = (Inl err, st') \<Longrightarrow>
     callTool others e name a st =
       (\<lparr>resp_content = Text (''Error executing '' @ name @ '': '' @ err_message err),
         isError = True\<rparr>, st')"
  by (simp add: callTool_def)

lemma callTool_Inr:
  "switchOnName others name e a st = (Inr r, st') \<Longrightarrow> callTool others e name a st = (r, st')"
  by (simp add: callTool_def)

lemma switchOnName_other: "switchOnName others (otherToolName t) e a st = others t e a st"
  by (cases t) (simp_all add: switchOnName_def otherToolName_def)

lemma toolNames_cover:
  "set toolNames =
     {''query_domain_structure'', ''query_database_schema'', ''find_route_by_name'',
      ''find_untested_files'', ''find_component_usage''} \<union> range otherToolName"
proof -
  have "range otherToolName = otherToolName ` {FindRelatedFiles, RunPhpstan, FindRoutesForController,
      ListAllRoutes, FindServiceChain, FindTestsForFile, GetTestStructureInfo, FindUnusedComponents,
      ListInertiaPages, FindPageProps, ListApiEndpoints, FindEndpointDetails, FindTableUsage,
      FindEloquentScopes}"
  proof -
    have "UNIV = {FindRelatedFiles, RunPhpstan, FindRoutesForController,
      ListAllRoutes, FindServiceChain, FindTestsForFile, GetTestStructureInfo, FindUnusedComponents,
      ListInertiaPages, FindPageProps, ListApiEndpoints, FindEndpointDetails, FindTableUsage,
      FindEloquentScopes}"
    proof (rule set_eqI)
      fix t :: other_tool
      show "t \<in> UNIV \<longleftrightarrow> t \<in> {FindRelatedFiles, RunPhpstan, FindRoutesForController,
      ListAllRoutes, FindServiceChain, FindTestsForFile, GetTestStructureInfo, FindUnusedComponents,
      ListInertiaPages, FindPageProps, ListApiEndpoints, FindEndpointDetails, FindTableUsage,
      FindEloquentScopes}"
        by (cases t) simp_all
    qed
    then show ?thesis by simp
  qed
  then show ?thesis
    by (simp add: toolNames_def otherToolName_def insert_commute)
qed

text \<open>
  Claim C1.  The dispatcher returns a response for every name and every argument map: its
  result has no exceptional outcome.  Whatever the handler of a name throws becomes the
  response with the text \<^verbatim>\<open>Error executing NAME: MESSAGE\<close> and \<^verbatim>\<open>isError\<close> set, and what it
  returns passes as it is: this is stated for the switch as a whole, for each of the five
  handlers modelled here, and for each of the fourteen handlers that are parameters,
  whatever their behaviour; these are the nineteen names.  A name that is none of the
  nineteen becomes \<^verbatim>\<open>Error executing NAME: Unknown tool: NAME\<close>.
\<close>

theorem callTool_error_envelope:
  "(\<forall>err st'. switchOnName others name e a st = (Inl err, st') \<longrightarrow>
       callTool others e name a st =
         (\<lparr>resp_content = Text (''Error executing '' @ name @ '': '' @ err_message err),
           isError = True\<rparr>, st'))
   \<and> (\<forall>r st'. switchOnName others name e a st = (Inr r, st') \<longrightarrow>
         callTool others e name a st = (r, st'))
   \<and> (name \<notin> set toolNames \<longrightarrow>
         callTool others e name a st =
           (\<lparr>resp_content = Text (''Error executing '' @ name @ '': Unknown tool: '' @ name),
             isError = True\<rparr>, st))
   \<and> (\<forall>err. queryDomainStructure e a = Inl err \<longrightarrow>
         callTool others e ''query_domain_structure'' a st =
           (\<lparr>resp_content = Text (''Error executing query_domain_structure: '' @ err_message err),
             isError = True\<rparr>, st))
   \<and> (\<forall>err. findUntestedFiles e a = Inl err \<longrightarrow>
         callTool others e ''find_untested_files'' a st =
           (\<lparr>resp_content = Text (''Error executing find_untested_files: '' @ err_message err),
             isError = True\<rparr>, st))
   \<and> (\<forall>err. findComponentUsage e a = Inl err \<longrightarrow>
         callTool others e ''find_component_usage'' a st =
           (\<lparr>resp_content = Text (''Error executing find_component_usage: '' @ err_message err),
             isError = True\<rparr>, st))
   \<and> (\<forall>err st'. queryDatabaseSchema e a st = (Inl err, st') \<longrightarrow>
         callTool others e ''query_database_schema'' a st =
           (\<lparr>resp_content = Text (''Error executing query_database_schema: '' @ err_message err),
             isError = True\<rparr>, st'))
   \<and> (\<forall>err st'. findRouteByName e a st = (Inl err, st') \<longrightarrow>
         callTool others e ''find_route_by_name'' a st =
           (\<lparr>resp_content = Text (''Error executing find_route_by_name: '' @ err_message err),
             isError = True\<rparr>, st'))
   \<and> (\<forall>t err st'. others t e a st = (Inl err, st') \<longrightarrow>
         callTool others e (otherToolName t) a st =
           (\<lparr>resp_content =
               Text (''Error executing '' @ otherToolName t @ '': '' @ err_message err),
             isError = True\<rparr>, st'))
   \<and> (\<forall>t r st'. others t e a st = (Inr r, st') \<longrightarrow>
         callTool others e (otherToolName t) a st = (r, st'))
   \<and> (\<forall>r. queryDomainStructure e a = Inr r \<longrightarrow>
         callTool others e ''query_domain_structure'' a st = (r, st))
   \<and> (\<forall>r. findUntestedFiles e a = Inr r \<longrightarrow>
         callTool others e ''find_untested_files'' a st = (r, st))
   \<and> (\<forall>r. findComponentUsage e a = Inr r \<longrightarrow>
         callTool others e ''find_component_usage'' a st = (r, st))
   \<and> (\<forall>r st'. queryDatabaseSchema e a st = (Inr r, st') \<longrightarrow>
         callTool others e ''query_database_schema'' a st = (r, st'))
   \<and> (\<forall>r st'. findRouteByName e a st = (Inr r, st') \<longrightarrow>
         callTool others e ''find_route_by_name'' a st = (r, st'))
   \<and> set toolNames =
         {''query_domain_structure'', ''query_database_schema'', ''find_route_by_name'',
          ''find_untested_files'', ''find_component_usage''} \<union> range otherToolName"
proof -
  have c1: "\<forall>err st'. switchOnName others name e a st = (Inl err, st') \<longrightarrow>
       callTool others e name a st =
         (\<lparr>resp_content = Text (''Error executing '' @ name @ '': '' @ err_message err),
           isError = True\<rparr>, st')"
    by (simp add: callTool_def)
  have c2: "\<forall>r st'. switchOnName others name e a st = (Inr r, st') \<longrightarrow>
         callTool others e name a st = (r, st')"
    by (simp add: callTool_def)
  have c3: "name \<notin> set toolNames \<longrightarrow>
         callTool others e name a st =
           (\<lparr>resp_content = Text (''Error executing '' @ name @ '': Unknown tool: '' @ name),
             isError = True\<rparr>, st)"
    using switchOnName_unknown[of name others e a st] by (simp add: callTool_def mkError_def)
  have c4: "\<forall>err. queryDomainStructure e a = Inl err \<longrightarrow>
         callTool others e ''query_domain_structure'' a st =
           (\<lparr>resp_content = Text (''Error executing query_domain_structure: '' @ err_message err),
             isError = True\<rparr>, st)"
    by (simp add: callTool_def switchOnName_def)
  have c5: "\<forall>err. findUntestedFiles e a = Inl err \<longrightarrow>
         callTool others e ''find_untested_files'' a st =
           (\<lparr>resp_content = Text (''Error executing find_untested_files: '' @ err_message err),
             isError = True\<rparr>, st)"
    by (simp add: callTool_def switchOnName_def)
  have c6: "\<forall>err. findComponentUsage e a = Inl err \<longrightarrow>
         callTool others e ''find_component_usage'' a st =
           (\<lparr>resp_content = Text (''Error executing find_component_usage: '' @ err_message err),
             isError = True\<rparr>, st)"
    by (simp add: callTool_def switchOnName_def)
  have c7: "\<forall>err st'. queryDatabaseSchema e a st = (Inl err, st') \<longrightarrow>
         callTool others e ''query_database_schema'' a st =
           (\<lparr>resp_content = Text (''Error executing query_database_schema: '' @ err_message err),
             isError = True\<rparr>, st')"
    by (simp add: callTool_def switchOnName_def)
  have c8: "\<forall>err st'. findRouteByName e a st = (Inl err, st') \<longrightarrow>
         callTool others e ''find_route_by_name'' a st =
           (\<lparr>resp_content = Text (''Error executing find_route_by_name: '' @ err_message err),
             isError = True\<rparr>, st')"
    by (simp add: callTool_def switchOnName_def)
  have c9: "\<forall>t err st'. others t e a st = (Inl err, st') \<longrightarrow>
         callTool others e (otherToolName t) a st =
           (\<lparr>resp_content =
               Text (''Error executing '' @ otherToolName t @ '': '' @ err_message err),
             isError = True\<rparr>, st')"
    by (simp add: callTool_def switchOnName_other)
  have c10: "\<forall>t r st'. others t e a st = (Inr r, st') \<longrightarrow>
         callTool others e (otherToolName t) a st = (r, st')"
    by (simp add: callTool_def switchOnName_other)
  have c11: "\<forall>r. queryDomainStructure e a = Inr r \<longrightarrow>
         callTool others e ''query_domain_structure'' a st = (r, st)"
    by (simp add: callTool_def switchOnName_def)
  have c12: "\<forall>r. findUntestedFiles e a = Inr r \<longrightarrow>
         callTool others e ''find_untested_files'' a st = (r, st)"
    by (simp add: callTool_def switchOnName_def)
  have c13: "\<forall>r. findComponentUsage e a = Inr r \<longrightarrow>
         callTool others e ''find_component_usage'' a st = (r, st)"
    by (simp add: callTool_def switchOnName_def)
  have c14: "\<forall>r st'. queryDatabaseSchema e a st = (Inr r, st') \<longrightarrow>
         callTool others e ''query_database_schema'' a st = (r, st')"
    by (simp add: callTool_def switchOnName_def)
  have c15: "\<forall>r st'. findRouteByName e a st = (Inr r, st') \<longrightarrow>
         callTool others e ''find_route_by_name'' a st = (r, st')"
    by (simp add: callTool_def switchOnName_def)
  show ?thesis
    by (intro conjI) (rule c1, rule c2, rule c3, rule c4, rule c5, rule c6, rule c7, rule c8,
        rule c9, rule c10, rule c11, rule c12, rule c13, rule c14, rule c15, rule toolNames_cover)
qed

lemma findRouteByName_example:
  "findRouteByName exampleEnv (argsOf [(''route_name'', ''fleet.orders.index'')]) initial_state =
     (Inr (ok (RouteDetails
        \<lparr>rd_route_name = Some ''fleet.orders.index'', rd_method = ''GET'',
         rd_uri = ''/async/fleet/orders'', rd_controller = employerAction,
         rd_middleware = [''auth''], rd_domain = Some ''Employer''\<rparr>)), warmState)"
  using extractDomain_example
  by (simp add: findRouteByName_def getRoutes_example_first argsOf_def orderRoute_def
      employerAction_def)

theorem callTool_error_envelope_witness:
  "callTool noOthers exampleEnv ''no_such_tool'' (argsOf []) initial_state =
     (\<lparr>resp_content = Text ''Error executing no_such_tool: Unknown tool: no_such_tool'',
       isError = True\<rparr>, initial_state)
   \<and> callTool noOthers exampleEnv ''query_domain_structure'' (argsOf [(''domain'', ''Bogus'')])
        initial_state =
     (\<lparr>resp_content = Text (''Error executing query_domain_structure: Invalid domain ''
          @ [squote] @ ''Bogus'' @ [squote]
          @ ''. Valid domains: Core, Customer, Dealer, Employer''),
       isError = True\<rparr>, initial_state)
   \<and> callTool noOthers exampleEnv ''find_route_by_name''
        (argsOf [(''route_name'', ''fleet.orders.index'')]) initial_state =
     (ok (RouteDetails
        \<lparr>rd_route_name = Some ''fleet.orders.index'', rd_method = ''GET'',
         rd_uri = ''/async/fleet/orders'', rd_controller = employerAction,
         rd_middleware = [''auth''], rd_domain = Some ''Employer''\<rparr>), warmState)
   \<and> callTool noOthers exampleEnv ''run_phpstan'' (argsOf []) initial_state =
     (\<lparr>resp_content = Text ''Error executing run_phpstan: not implemented'',
       isError = True\<rparr>, initial_state)"
proof -
  have u: "''no_such_tool'' \<notin> set toolNames"
    by (simp add: toolNames_def)
  have q: "queryDomainStructure exampleEnv (argsOf [(''domain'', ''Bogus'')]) =
      Inl (mkError (''Invalid domain '' @ [squote] @ ''Bogus'' @ [squote]
          @ ''. Valid domains: Core, Customer, Dealer, Employer''))"
    by (simp add: queryDomainStructure_def argsOf_def VALID_DOMAINS_def)
  have f: "switchOnName noOthers ''find_route_by_name'' exampleEnv
        (argsOf [(''route_name'', ''fleet.orders.index'')]) initial_state =
      (Inr (ok (RouteDetails
        \<lparr>rd_route_name = Some ''fleet.orders.index'', rd_method = ''GET'',
         rd_uri = ''/async/fleet/orders'', rd_controller = employerAction,
         rd_middleware = [''auth''], rd_domain = Some ''Employer''\<rparr>)), warmState)"
    using findRouteByName_example by (simp add: switchOnName_def)
  note t = callTool_error_envelope[of noOthers _ exampleEnv _ initial_state]
  have a: "callTool noOthers exampleEnv ''no_such_tool'' (argsOf []) initial_state =
     (\<lparr>resp_content = Text (''Error executing '' @ ''no_such_tool'' @ '': Unknown tool: ''
         @ ''no_such_tool''), isError = True\<rparr>, initial_state)"
    using t[THEN conjunct2, THEN conjunct2, THEN conjunct1, THEN mp, OF u] .
  have b: "callTool noOthers exampleEnv ''query_domain_structure'' (argsOf [(''domain'', ''Bogus'')])
        initial_state =
     (\<lparr>resp_content = Text (''Error executing query_domain_structure: ''
          @ err_message (mkError (''Invalid domain '' @ [squote] @ ''Bogus'' @ [squote]
          @ ''. Valid domains: Core, Customer, Dealer, Employer''))),
       isError = True\<rparr>, initial_state)"
    using t[THEN conjunct2, THEN conjunct2, THEN conjunct2, THEN conjunct1, THEN spec, THEN mp, OF q] .
  have c: "callTool noOthers exampleEnv ''find_route_by_name''
        (argsOf [(''route_name'', ''fleet.orders.index'')]) initial_state =
     (ok (RouteDetails
        \<lparr>rd_route_name = Some ''fleet.orders.index'', rd_method = ''GET'',
         rd_uri = ''/async/fleet/orders'', rd_controller = employerAction,
         rd_middleware = [''auth''], rd_domain = Some ''Employer''\<rparr>), warmState)"
    using t[THEN conjunct2, THEN conjunct1, THEN spec, THEN spec, THEN mp, OF f] .
  have o: "noOthers RunPhpstan exampleEnv (argsOf []) initial_state =
      (Inl (mkError ''not implemented''), initial_state)"
    by (simp add: noOthers_def)
  have label: "otherToolName RunPhpstan = ''run_phpstan''"
    by (simp add: otherToolName_def)
  have d: "callTool noOthers exampleEnv ''run_phpstan'' (argsOf []) initial_state =
     (\<lparr>resp_content = Text (''Error executing '' @ ''run_phpstan'' @ '': ''
         @ err_message (mkError ''not implemented'')), isError = True\<rparr>, initial_state)"
    using t[THEN conjunct2, THEN conjunct2, THEN conjunct2, THEN conjunct2, THEN conjunct2,
        THEN conjunct2, THEN conjunct2, THEN conjunct2, THEN conjunct1, THEN spec, THEN spec,
        THEN spec, THEN mp, OF o]
    unfolding label .
  show ?thesis
    unfolding a b c d by (simp add: mkError_def)
qed

section \<open>The structure listing\<close>

lemma categoryRule_unfold:
  "categoryRule ''controllers'' = (\<lambda>f. includesStr f ''Controller'')"
  "categoryRule ''repositories'' = (\<lambda>f. includesStr f ''Repository'' \<and> \<not> includesStr f ''Interface'')"
  "categoryRule ''repository_interfaces'' = (\<lambda>f. includesStr f ''Repository'' \<and> includesStr f ''Interface'')"
  "categoryRule ''transformers'' = (\<lambda>f. includesStr f ''Transformer'')"
  "categoryRule ''requests'' = (\<lambda>f. includesStr f ''Request'')"
  "categoryRule ''models'' = (\<lambda>f. includesStr f ''/Models/'')"
  "categoryRule ''entities'' = (\<lambda>f. includesStr f ''/Entities/'')"
  "categoryRule ''services'' = (\<lambda>f. includesStr f ''Service'')"
  "categoryRule ''exceptions'' = (\<lambda>f. includesStr f ''Exception'')"
  by (rule ext, simp add: categoryRule_def)+

lemma queryDomainStructure_valid:
  "a ''domain'' = Some domain \<Longrightarrow> domain \<in> set VALID_DOMAINS \<Longrightarrow>
   existsSync e (path_join [O2O_BASE_PATH e, ''app'', domain]) \<Longrightarrow>
   queryDomainStructure e a = Inr (ok (DomainStructure (structureOf e domain)))"
  by (simp add: queryDomainStructure_def structureOf_def Let_def bucketKeys_def
      categoryRule_unfold)

lemma queryDomainStructure_Inr:
  assumes r: "queryDomainStructure e a = Inr resp"
  shows "\<exists>domain. a ''domain'' = Some domain \<and> domain \<in> set VALID_DOMAINS
     \<and> existsSync e (path_join [O2O_BASE_PATH e, ''app'', domain])
     \<and> resp = ok (DomainStructure (structureOf e domain))"
proof (cases "a ''domain''")
  case None
  with r show ?thesis by (simp add: queryDomainStructure_def)
next
  case (Some domain)
  have v: "domain \<in> set VALID_DOMAINS"
    using r Some by (auto simp: queryDomainStructure_def split: if_splits)
  have x: "existsSync e (path_join [O2O_BASE_PATH e, ''app'', domain])"
    using r Some v by (auto simp: queryDomainStructure_def Let_def split: if_splits)
  show ?thesis
    using queryDomainStructure_valid[of a domain e, OF Some v x] r Some v x by simp
qed

lemma queryDomainStructure_invalid:
  "a ''domain'' = Some domain \<Longrightarrow> domain \<notin> set VALID_DOMAINS \<Longrightarrow>
   queryDomainStructure e a =
     Inl (mkError (''Invalid domain '' @ [squote] @ domain @ [squote]
            @ ''. Valid domains: Core, Customer, Dealer, Employer''))"
  by (simp add: queryDomainStructure_def VALID_DOMAINS_def)

lemma sum_filter_swap:
  "sum_list (map (\<lambda>k. length (filter (R k) fs)) ks)
     = sum_list (map (\<lambda>f. length (filter (\<lambda>k. R k f) ks)) fs)"
proof (induction fs)
  case Nil
  then show ?case by simp
next
  case (Cons f fs)
  have "sum_list (map (\<lambda>k. length (filter (R k) (f # fs))) ks)
      = sum_list (map (\<lambda>k. (if R k f then 1 else 0) + length (filter (R k) fs)) ks)"
    by (rule arg_cong[where f = sum_list]) (rule map_cong, auto)
  also have "\<dots> = sum_list (map (\<lambda>k. if R k f then 1 else 0) ks)
      + sum_list (map (\<lambda>k. length (filter (R k) fs)) ks)"
    by (simp add: sum_list_addf)
  also have "sum_list (map (\<lambda>k. if R k f then 1 else (0::nat)) ks) = length (filter (\<lambda>k. R k f) ks)"
    by (induction ks) auto
  finally show ?case using Cons by simp
qed

lemma bucketTotal_structureOf:
  "bucketTotal (structureOf e domain)
     = sum_list (map (\<lambda>f. length (filter (\<lambda>k. categoryRule k f) bucketKeys))
         (domainPhpFiles e (path_join [O2O_BASE_PATH e, ''app'', domain])))"
proof -
  have "bucketTotal (structureOf e domain)
      = sum_list (map (\<lambda>k. length (filter (categoryRule k)
          (domainPhpFiles e (path_join [O2O_BASE_PATH e, ''app'', domain])))) bucketKeys)"
    by (simp add: bucketTotal_def structureOf_def Let_def relativizeArray_def comp_def)
  then show ?thesis
    by (simp only: sum_filter_swap[where R = categoryRule])
qed

lemma structureOf_member:
  "(k, arr) \<in> set (ds_files (structureOf e domain)) \<Longrightarrow>
     k \<in> set bucketKeys
   \<and> arr = map (relativePath e)
       (filter (categoryRule k) (domainPhpFiles e (path_join [O2O_BASE_PATH e, ''app'', domain])))"
  by (auto simp: structureOf_def Let_def relativizeArray_def relativePath_def)


lemma structureOf_keys: "map fst (ds_files (structureOf e domain)) = bucketKeys"
  by (simp add: structureOf_def Let_def comp_def)

lemma structureOf_bucket:
  "k \<in> set bucketKeys \<Longrightarrow>
     (k, map (relativePath e)
           (filter (categoryRule k) (domainPhpFiles e (path_join [O2O_BASE_PATH e, ''app'', domain]))))
       \<in> set (ds_files (structureOf e domain))"
  by (auto simp: structureOf_def Let_def relativizeArray_def relativePath_def)

text \<open>
  Claim C5, amended.  A structure listing that succeeds has exactly the nine buckets of
  \<open>bucketKeys\<close>, none of which is one for tests.  Every bucket is the whole file set of the
  domain filtered by the rule of its own key, so a file appears in every bucket whose rule it
  matches; a file whose path contains \<^verbatim>\<open>Service\<close> appears in the services bucket whatever
  else its path contains or its name ends with.
\<close>

theorem queryDomainStructure_buckets:
  assumes run: "queryDomainStructure e a = Inr resp"
  shows "\<exists>domain r. a ''domain'' = Some domain \<and> resp = ok (DomainStructure r)
     \<and> map fst (ds_files r) = bucketKeys
     \<and> ''test'' \<notin> set (map fst (ds_files r)) \<and> ''tests'' \<notin> set (map fst (ds_files r))
     \<and> (\<forall>k arr. (k, arr) \<in> set (ds_files r) \<longrightarrow>
           arr = map (relativePath e) (filter (categoryRule k)
                   (domainPhpFiles e (path_join [O2O_BASE_PATH e, ''app'', domain]))))
     \<and> (\<forall>f \<in> set (domainPhpFiles e (path_join [O2O_BASE_PATH e, ''app'', domain])).
           \<forall>k \<in> set bucketKeys. categoryRule k f \<longrightarrow>
             (\<exists>arr. (k, arr) \<in> set (ds_files r) \<and> relativePath e f \<in> set arr))
     \<and> (\<forall>f \<in> set (domainPhpFiles e (path_join [O2O_BASE_PATH e, ''app'', domain])).
           includesStr f ''Service'' \<longrightarrow>
             (\<exists>arr. (''services'', arr) \<in> set (ds_files r) \<and> relativePath e f \<in> set arr))"
proof -
  from queryDomainStructure_Inr[OF run] obtain domain where
    d: "a ''domain'' = Some domain" and r: "resp = ok (DomainStructure (structureOf e domain))"
    by blast
  let ?files = "domainPhpFiles e (path_join [O2O_BASE_PATH e, ''app'', domain])"
  let ?r = "structureOf e domain"
  have keys: "map fst (ds_files ?r) = bucketKeys"
    by (rule structureOf_keys)
  have notest: "''test'' \<notin> set (map fst (ds_files ?r)) \<and> ''tests'' \<notin> set (map fst (ds_files ?r))"
    unfolding keys by (simp add: bucketKeys_def)
  have each: "\<forall>k arr. (k, arr) \<in> set (ds_files ?r) \<longrightarrow>
           arr = map (relativePath e) (filter (categoryRule k) ?files)"
    using structureOf_member[of _ _ e domain] by blast
  have every: "\<forall>f \<in> set ?files. \<forall>k \<in> set bucketKeys. categoryRule k f \<longrightarrow>
             (\<exists>arr. (k, arr) \<in> set (ds_files ?r) \<and> relativePath e f \<in> set arr)"
  proof (intro ballI impI)
    fix f k
    assume f: "f \<in> set ?files" and k: "k \<in> set bucketKeys" and c: "categoryRule k f"
    have "relativePath e f \<in> set (map (relativePath e) (filter (categoryRule k) ?files))"
      using f c by simp
    with structureOf_bucket[OF k, of e domain]
    show "\<exists>arr. (k, arr) \<in> set (ds_files ?r) \<and> relativePath e f \<in> set arr"
      by blast
  qed
  have svc: "\<forall>f \<in> set ?files. includesStr f ''Service'' \<longrightarrow>
             (\<exists>arr. (''services'', arr) \<in> set (ds_files ?r) \<and> relativePath e f \<in> set arr)"
  proof (intro ballI impI)
    fix f
    assume f: "f \<in> set ?files" and c: "includesStr f ''Service''"
    have k: "''services'' \<in> set bucketKeys" by (simp add: bucketKeys_def)
    have "categoryRule ''services'' f" using c by (simp add: categoryRule_def)
    with every f k show "\<exists>arr. (''services'', arr) \<in> set (ds_files ?r) \<and> relativePath e f \<in> set arr"
      by blast
  qed
  show ?thesis
    using d r keys notest each every svc by blast
qed

text \<open>
  Claim C5 as it is stated, at a concrete installation.  The only PHP file of the Employer
  domain has \<^verbatim>\<open>Service\<close> in its path and a name that ends with \<^verbatim>\<open>Test\<close> before the
  extension.  The listing has the nine buckets below and no other; the file stands in
  the services bucket only, and no bucket is one for tests.
\<close>

theorem queryDomainStructure_test_bucket_counterexample:
  "queryDomainStructure exampleEnv (argsOf [(''domain'', ''Employer'')]) =
     Inr (ok (DomainStructure
       \<lparr>ds_domain = ''Employer'', ds_path = ''/srv/o2o/app/Employer'', ds_total_files = 1,
        ds_files =
          [(''controllers'', []), (''repositories'', []), (''repository_interfaces'', []),
           (''transformers'', []), (''requests'', []), (''models'', []), (''entities'', []),
           (''services'', [''app/Employer/Services/OrderServiceTest.php'']),
           (''exceptions'', [])]\<rparr>))
   \<and> domainPhpFiles exampleEnv ''/srv/o2o/app/Employer''
       = [''/srv/o2o/app/Employer/Services/OrderServiceTest.php'']
   \<and> includesStr ''/srv/o2o/app/Employer/Services/OrderServiceTest.php'' ''Service''
   \<and> extractClassName ''/srv/o2o/app/Employer/Services/OrderServiceTest.php''
       = ''OrderServiceTest''"
  by code_simp

lemma core_files:
  "domainPhpFiles exampleEnv (path_join [O2O_BASE_PATH exampleEnv, ''app'', ''Core''])
     = [''/srv/o2o/app/Core/Services/PaymentServiceController.php'']"
  by code_simp

lemma dealer_files:
  "domainPhpFiles exampleEnv (path_join [O2O_BASE_PATH exampleEnv, ''app'', ''Dealer''])
     = [''/srv/o2o/app/Dealer/Helpers/Money.php'']"
  by code_simp

lemma core_listing:
  "queryDomainStructure exampleEnv (argsOf [(''domain'', ''Core'')]) =
     Inr (ok (DomainStructure
       \<lparr>ds_domain = ''Core'', ds_path = ''/srv/o2o/app/Core'', ds_total_files = 1,
        ds_files =
          [(''controllers'', [''app/Core/Services/PaymentServiceController.php'']),
           (''repositories'', []), (''repository_interfaces'', []),
           (''transformers'', []), (''requests'', []), (''models'', []), (''entities'', []),
           (''services'', [''app/Core/Services/PaymentServiceController.php'']),
           (''exceptions'', [])]\<rparr>))"
  by code_simp

lemma dealer_listing:
  "queryDomainStructure exampleEnv (argsOf [(''domain'', ''Dealer'')]) =
     Inr (ok (DomainStructure
       \<lparr>ds_domain = ''Dealer'', ds_path = ''/srv/o2o/app/Dealer'', ds_total_files = 1,
        ds_files =
          [(''controllers'', []), (''repositories'', []), (''repository_interfaces'', []),
           (''transformers'', []), (''requests'', []), (''models'', []), (''entities'', []),
           (''services'', []), (''exceptions'', [])]\<rparr>))"
  by code_simp

theorem queryDomainStructure_buckets_witness:
  "(\<exists>arr. (''services'', arr) \<in> set
       [(''controllers'', [''app/Core/Services/PaymentServiceController.php'']),
        (''repositories'', []), (''repository_interfaces'', []),
        (''transformers'', []), (''requests'', []), (''models'', []), (''entities'', []),
        (''services'', [''app/Core/Services/PaymentServiceController.php'']),
        (''exceptions'', [])]
      \<and> ''app/Core/Services/PaymentServiceController.php'' \<in> set arr)
   \<and> (\<exists>arr. (''controllers'', arr) \<in> set
       [(''controllers'', [''app/Core/Services/PaymentServiceController.php'']),
        (''repositories'', []), (''repository_interfaces'', []),
        (''transformers'', []), (''requests'', []), (''models'', []), (''entities'', []),
        (''services'', [''app/Core/Services/PaymentServiceController.php'']),
        (''exceptions'', [])]
      \<and> ''app/Core/Services/PaymentServiceController.php'' \<in> set arr)"
proof -
  let ?f = "''/srv/o2o/app/Core/Services/PaymentServiceController.php''"
  let ?fs = "[(''controllers'', [''app/Core/Services/PaymentServiceController.php'']),
        (''repositories'', []), (''repository_interfaces'', []),
        (''transformers'', []), (''requests'', []), (''models'', []), (''entities'', []),
        (''services'', [''app/Core/Services/PaymentServiceController.php'']),
        (''exceptions'', [])]"
  from queryDomainStructure_buckets[OF core_listing] obtain domain r where
    d: "argsOf [(''domain'', ''Core'')] ''domain'' = Some domain"
    and r: "ok (DomainStructure
       \<lparr>ds_domain = ''Core'', ds_path = ''/srv/o2o/app/Core'', ds_total_files = 1,
        ds_files = ?fs\<rparr>) = ok (DomainStructure r)"
    and every: "\<forall>f \<in> set (domainPhpFiles exampleEnv (path_join [O2O_BASE_PATH exampleEnv, ''app'', domain])).
           \<forall>k \<in> set bucketKeys. categoryRule k f \<longrightarrow>
             (\<exists>arr. (k, arr) \<in> set (ds_files r) \<and> relativePath exampleEnv f \<in> set arr)"
    by blast
  have dom: "domain = ''Core''" using d by (simp add: argsOf_def)
  have fs: "ds_files r = ?fs" using r by (auto simp: ok_def)
  have mem: "?f \<in> set (domainPhpFiles exampleEnv (path_join [O2O_BASE_PATH exampleEnv, ''app'', domain]))"
    unfolding dom core_files by simp
  have rel: "relativePath exampleEnv ?f = ''app/Core/Services/PaymentServiceController.php''"
    by code_simp
  have k1: "''services'' \<in> set bucketKeys" and k2: "''controllers'' \<in> set bucketKeys"
    by (simp_all add: bucketKeys_def)
  have c1: "categoryRule ''services'' ?f" and c2: "categoryRule ''controllers'' ?f"
    by code_simp+
  from every[rule_format, OF mem k1 c1] every[rule_format, OF mem k2 c2]
  show ?thesis unfolding fs rel by (intro conjI)
qed

text \<open>
  Claim C10.  For a valid domain whose directory exists, the structure listing succeeds
  and \<^verbatim>\<open>total_files\<close> is the number of files that the glob returned, while the lengths
  of the buckets add up to the number of pairs of a file and a rule that the file matches.
  There is an installation with one file in two buckets, where \<^verbatim>\<open>total_files\<close> is 1 and
  the buckets hold 2 entries, and one with one file in no bucket, where \<^verbatim>\<open>total_files\<close>
  is 1 and the buckets hold none.
\<close>

theorem queryDomainStructure_total_files:
  assumes d: "a ''domain'' = Some domain"
      and v: "domain \<in> set VALID_DOMAINS"
      and x: "existsSync e (path_join [O2O_BASE_PATH e, ''app'', domain])"
  shows "(\<exists>r. queryDomainStructure e a = Inr (ok (DomainStructure r))
          \<and> ds_total_files r
              = length (domainPhpFiles e (path_join [O2O_BASE_PATH e, ''app'', domain]))
          \<and> bucketTotal r
              = sum_list (map (\<lambda>f. length (filter (\<lambda>k. categoryRule k f) bucketKeys))
                  (domainPhpFiles e (path_join [O2O_BASE_PATH e, ''app'', domain]))))
       \<and> (\<exists>e' a' r'. queryDomainStructure e' a' = Inr (ok (DomainStructure r'))
             \<and> ds_total_files r' = 1 \<and> bucketTotal r' = 2)
       \<and> (\<exists>e' a' r'. queryDomainStructure e' a' = Inr (ok (DomainStructure r'))
             \<and> ds_total_files r' = 1 \<and> bucketTotal r' = 0)"
proof -
  have run: "queryDomainStructure e a = Inr (ok (DomainStructure (structureOf e domain)))"
    by (rule queryDomainStructure_valid[of a domain e, OF d v x])
  have tot: "ds_total_files (structureOf e domain)
      = length (domainPhpFiles e (path_join [O2O_BASE_PATH e, ''app'', domain]))"
    by (simp add: structureOf_def Let_def)
  have general: "\<exists>r. queryDomainStructure e a = Inr (ok (DomainStructure r))
          \<and> ds_total_files r
              = length (domainPhpFiles e (path_join [O2O_BASE_PATH e, ''app'', domain]))
          \<and> bucketTotal r
              = sum_list (map (\<lambda>f. length (filter (\<lambda>k. categoryRule k f) bucketKeys))
                  (domainPhpFiles e (path_join [O2O_BASE_PATH e, ''app'', domain])))"
    using run tot bucketTotal_structureOf[of e domain] by blast
  have two: "\<exists>e' a' r'. queryDomainStructure e' a' = Inr (ok (DomainStructure r'))
             \<and> ds_total_files r' = 1 \<and> bucketTotal r' = 2"
    by (intro exI conjI, rule core_listing) (simp_all add: bucketTotal_def)
  have none: "\<exists>e' a' r'. queryDomainStructure e' a' = Inr (ok (DomainStructure r'))
             \<and> ds_total_files r' = 1 \<and> bucketTotal r' = 0"
    by (intro exI conjI, rule dealer_listing) (simp_all add: bucketTotal_def)
  show ?thesis
    using general two none by (intro conjI)
qed

theorem queryDomainStructure_total_files_witness:
  "\<exists>r. queryDomainStructure exampleEnv (argsOf [(''domain'', ''Core'')])
          = Inr (ok (DomainStructure r))
      \<and> ds_total_files r = 1 \<and> bucketTotal r = 2"
proof -
  have d: "argsOf [(''domain'', ''Core'')] ''domain'' = Some ''Core''"
    by (simp add: argsOf_def)
  have v: "''Core'' \<in> set VALID_DOMAINS"
    by (simp add: VALID_DOMAINS_def)
  have x: "existsSync exampleEnv (path_join [O2O_BASE_PATH exampleEnv, ''app'', ''Core''])"
    by code_simp
  have n: "length [''/srv/o2o/app/Core/Services/PaymentServiceController.php''] = 1"
    by simp
  have m: "sum_list (map (\<lambda>f. length (filter (\<lambda>k. categoryRule k f) bucketKeys))
      [''/srv/o2o/app/Core/Services/PaymentServiceController.php'']) = 2"
    by code_simp
  from queryDomainStructure_total_files[of "argsOf [(''domain'', ''Core'')]" "''Core''" exampleEnv,
      OF d v x, THEN conjunct1]
  show ?thesis unfolding core_files n m .
qed

text \<open>
  Claim C4, at the domain \<^verbatim>\<open>Bogus\<close>, which is none of the four.  \<^verbatim>\<open>queryDomainStructure\<close>
  rejects it with \<^verbatim>\<open>Invalid domain\<close>; \<^verbatim>\<open>findUntestedFiles\<close>, whose schema declares the same
  four values, runs its globs under \<^verbatim>\<open>app/Bogus\<close> and answers with an empty report.
\<close>

theorem findUntestedFiles_accepts_unknown_domain:
  "''Bogus'' \<notin> set VALID_DOMAINS
   \<and> queryDomainStructure exampleEnv (argsOf [(''domain'', ''Bogus'')]) =
       Inl (mkError (''Invalid domain '' @ [squote] @ ''Bogus'' @ [squote]
              @ ''. Valid domains: Core, Customer, Dealer, Employer''))
   \<and> findUntestedFiles exampleEnv (argsOf [(''domain'', ''Bogus'')]) =
       Inr (ok (UntestedReport
         \<lparr>ur_domain = ''Bogus'', ur_file_type_filter = ''all'', ur_untested_files = [],
          ur_total_files = 0, ur_tested_files = 0, ur_untested_count = 0,
          ur_coverage_percentage = Num 0\<rparr>))"
  by code_simp

section \<open>The schema query\<close>

lemma qdb_primary_ok:
  "describeTable e (a ''table_name'') = Inr schema \<Longrightarrow>
     fst (queryDatabaseSchema e a st) =
       Inr (ok (Schema \<lparr>fs_table = a ''table_name'',
                        fs_columns = map formatColumn schema\<rparr>))"
  by (simp add: queryDatabaseSchema_def Let_def)

lemma qdb_no_migration:
  "describeTable e (a ''table_name'') = Inl cause \<Longrightarrow>
   migrationFiles e (a ''table_name'') = [] \<Longrightarrow>
     fst (queryDatabaseSchema e a st) =
       Inl (mkError (''Could not retrieve schema for table '' @ [squote]
              @ tmpl (a ''table_name'') @ [squote] @ ''. Error: '' @ errorToString cause))"
  by (simp add: queryDatabaseSchema_def Let_def)

lemma qdb_migration_read:
  "describeTable e (a ''table_name'') = Inl cause \<Longrightarrow>
   migrationFiles e (a ''table_name'') = m # ms \<Longrightarrow>
   readFileSync e m = Inr content \<Longrightarrow>
     fst (queryDatabaseSchema e a st) =
       Inr (ok (Text (''Could not query database directly. Found migration file:''
                        @ [CHR 0x0A, CHR 0x0A] @ content)))"
  by (simp add: queryDatabaseSchema_def Let_def)

lemma qdb_migration_unreadable:
  "describeTable e (a ''table_name'') = Inl cause \<Longrightarrow>
   migrationFiles e (a ''table_name'') = m # ms \<Longrightarrow>
   readFileSync e m = Inl err \<Longrightarrow>
     fst (queryDatabaseSchema e a st) = Inl err"
  by (simp add: queryDatabaseSchema_def Let_def)

lemma qdb_error_only:
  "fst (queryDatabaseSchema e a st) = Inl x \<Longrightarrow>
     (\<exists>cause. describeTable e (a ''table_name'') = Inl cause)
   \<and> (migrationFiles e (a ''table_name'') = []
       \<or> (\<exists>m ms. migrationFiles e (a ''table_name'') = m # ms \<and> readFileSync e m = Inl x))"
  by (auto simp: queryDatabaseSchema_def Let_def split: sum.splits list.splits)

text \<open>
  Claim C9 as it is stated, at a concrete installation: the schema query fails, a
  migration of the table is found, and the operation still fails, with the exception of
  \<^verbatim>\<open>readFileSync\<close>, because the migration cannot be read.
\<close>

theorem queryDatabaseSchema_fallback_counterexample:
  "describeTable lockedEnv (Some ''users'')
     = Inl (Thrown ''Error'' (''Command failed: '' @ describe_command (Some ''users'')))
   \<and> migrationFiles lockedEnv (Some ''users'') = [usersMigration]
   \<and> fst (queryDatabaseSchema lockedEnv (argsOf [(''table_name'', ''users'')]) initial_state)
     = Inl (Thrown ''Error'' (''EACCES: permission denied, open '' @ usersMigration))"
  by code_simp

text \<open>
  Claim C9, amended.  When the schema query fails, the operation looks for a migration of
  the table.  With none, it fails with \<^verbatim>\<open>Could not retrieve schema\<close> and the cause; with
  one or more, it reads the first: its text, after a notice, is a response without
  \<^verbatim>\<open>isError\<close>, and an exception of the read is the failure of the operation.  The operation
  fails only when the schema query has failed and either no migration is found or the
  first one cannot be read.
\<close>

theorem queryDatabaseSchema_fallback:
  "(\<forall>cause. describeTable e (a ''table_name'') = Inl cause \<longrightarrow>
      (migrationFiles e (a ''table_name'') = [] \<longrightarrow>
         fst (queryDatabaseSchema e a st) =
           Inl (mkError (''Could not retrieve schema for table '' @ [squote]
                  @ tmpl (a ''table_name'') @ [squote] @ ''. Error: '' @ errorToString cause)))
    \<and> (\<forall>m ms content. migrationFiles e (a ''table_name'') = m # ms
            \<and> readFileSync e m = Inr content \<longrightarrow>
         fst (queryDatabaseSchema e a st) =
           Inr (ok (Text (''Could not query database directly. Found migration file:''
                            @ [CHR 0x0A, CHR 0x0A] @ content))))
    \<and> (\<forall>m ms err. migrationFiles e (a ''table_name'') = m # ms
            \<and> readFileSync e m = Inl err \<longrightarrow>
         fst (queryDatabaseSchema e a st) = Inl err))
   \<and> (\<forall>x. fst (queryDatabaseSchema e a st) = Inl x \<longrightarrow>
         (\<exists>cause. describeTable e (a ''table_name'') = Inl cause)
       \<and> (migrationFiles e (a ''table_name'') = []
           \<or> (\<exists>m ms. migrationFiles e (a ''table_name'') = m # ms
                     \<and> readFileSync e m = Inl x)))"
proof -
  have A: "\<forall>cause. describeTable e (a ''table_name'') = Inl cause \<longrightarrow>
      (migrationFiles e (a ''table_name'') = [] \<longrightarrow>
         fst (queryDatabaseSchema e a st) =
           Inl (mkError (''Could not retrieve schema for table '' @ [squote]
                  @ tmpl (a ''table_name'') @ [squote] @ ''. Error: '' @ errorToString cause)))
    \<and> (\<forall>m ms content. migrationFiles e (a ''table_name'') = m # ms
            \<and> readFileSync e m = Inr content \<longrightarrow>
         fst (queryDatabaseSchema e a st) =
           Inr (ok (Text (''Could not query database directly. Found migration file:''
                            @ [CHR 0x0A, CHR 0x0A] @ content))))
    \<and> (\<forall>m ms err. migrationFiles e (a ''table_name'') = m # ms
            \<and> readFileSync e m = Inl err \<longrightarrow>
         fst (queryDatabaseSchema e a st) = Inl err)"
    using qdb_no_migration[of e a _ st] qdb_migration_read[of e a _ _ _ _ st]
      qdb_migration_unreadable[of e a _ _ _ _ st]
    by blast
  have B: "\<forall>x. fst (queryDatabaseSchema e a st) = Inl x \<longrightarrow>
         (\<exists>cause. describeTable e (a ''table_name'') = Inl cause)
       \<and> (migrationFiles e (a ''table_name'') = []
           \<or> (\<exists>m ms. migrationFiles e (a ''table_name'') = m # ms
                     \<and> readFileSync e m = Inl x))"
    using qdb_error_only[of e a st] by blast
  show ?thesis by (rule conjI[OF A B])
qed

lemma users_primary:
  "describeTable exampleEnv (argsOf [(''table_name'', ''users'')] ''table_name'')
     = Inl (Thrown ''Error'' (''Command failed: '' @ describe_command (Some ''users'')))"
  by code_simp

lemma users_migration:
  "migrationFiles exampleEnv (argsOf [(''table_name'', ''users'')] ''table_name'')
     = usersMigration # []
   \<and> readFileSync exampleEnv usersMigration = Inr ''Schema::create(users)''"
  by code_simp

lemma orders_primary:
  "describeTable exampleEnv (argsOf [(''table_name'', ''orders'')] ''table_name'')
     = Inl (Thrown ''Error'' (''Command failed: '' @ describe_command (Some ''orders'')))"
  by code_simp

lemma orders_migration:
  "migrationFiles exampleEnv (argsOf [(''table_name'', ''orders'')] ''table_name'') = []"
  by code_simp

theorem queryDatabaseSchema_fallback_witness:
  "fst (queryDatabaseSchema exampleEnv (argsOf [(''table_name'', ''users'')]) initial_state) =
     Inr (ok (Text (''Could not query database directly. Found migration file:''
                      @ [CHR 0x0A, CHR 0x0A] @ ''Schema::create(users)'')))
   \<and> fst (queryDatabaseSchema exampleEnv (argsOf [(''table_name'', ''orders'')]) initial_state) =
     Inl (mkError (''Could not retrieve schema for table '' @ [squote]
            @ tmpl (argsOf [(''table_name'', ''orders'')] ''table_name'') @ [squote]
            @ ''. Error: '' @ errorToString
                (Thrown ''Error'' (''Command failed: '' @ describe_command (Some ''orders'')))))"
proof -
  note t1 = queryDatabaseSchema_fallback[of exampleEnv "argsOf [(''table_name'', ''users'')]"
      initial_state, THEN conjunct1, THEN spec, THEN mp, OF users_primary]
  note t2 = queryDatabaseSchema_fallback[of exampleEnv "argsOf [(''table_name'', ''orders'')]"
      initial_state, THEN conjunct1, THEN spec, THEN mp, OF orders_primary]
  have a: "fst (queryDatabaseSchema exampleEnv (argsOf [(''table_name'', ''users'')]) initial_state) =
     Inr (ok (Text (''Could not query database directly. Found migration file:''
                      @ [CHR 0x0A, CHR 0x0A] @ ''Schema::create(users)'')))"
    using t1[THEN conjunct2, THEN conjunct1, THEN spec, THEN spec, THEN spec, THEN mp,
        OF users_migration] .
  have b: "fst (queryDatabaseSchema exampleEnv (argsOf [(''table_name'', ''orders'')]) initial_state) =
     Inl (mkError (''Could not retrieve schema for table '' @ [squote]
            @ tmpl (argsOf [(''table_name'', ''orders'')] ''table_name'') @ [squote]
            @ ''. Error: '' @ errorToString
                (Thrown ''Error'' (''Command failed: '' @ describe_command (Some ''orders'')))))"
    using t2[THEN conjunct1, THEN mp, OF orders_migration] .
  show ?thesis by (rule conjI[OF a b])
qed

section \<open>Component usage counts\<close>

lemma scanUsages_step_error:
  "scanError e n f = Some err \<Longrightarrow> scanUsages e n (f # fs) acc = Inl err"
  by (auto simp: scanError_def split: sum.splits if_splits)

lemma scanUsages_step_ok:
  assumes "scanError e n f = None"
  shows "scanUsages e n (f # fs) acc =
     scanUsages e n fs
       (if contributes e n f then acc @ [usageOf e f (tagCount e n f)] else acc)"
  using assms
  by (auto simp: scanError_def contributes_def importMatches_def tagCount_def contentOf_def
      split: sum.splits if_splits)

lemma scanUsages_result:
  "scanUsages e n files acc =
     (case firstScanError e n files of
        Some err \<Rightarrow> Inl err
      | None \<Rightarrow> Inr (acc @ map (\<lambda>f. usageOf e f (tagCount e n f))
                          (filter (contributes e n) files)))"
proof (induction files arbitrary: acc)
  case Nil
  show ?case by simp
next
  case (Cons f fs)
  show ?case
  proof (cases "scanError e n f")
    case (Some err)
    then show ?thesis using scanUsages_step_error[OF Some] by simp
  next
    case None
    show ?thesis
      unfolding scanUsages_step_ok[OF None] Cons.IH
      by (simp add: None split: option.splits)
  qed
qed

lemma foldl_usage_sum:
  "foldl (\<lambda>sum u. sum + u_usage_count u) s us = s + sum_list (map u_usage_count us)"
  by (induction us arbitrary: s) auto

lemma findComponentUsage_not_found:
  "definitionFiles e a = [] \<Longrightarrow>
     findComponentUsage e a =
       Inl (mkError (''Component '' @ [squote] @ tmpl (a ''component_name'') @ [squote]
              @ '' not found''))"
  by (simp add: findComponentUsage_def definitionFiles_def Let_def)

lemma findComponentUsage_scan:
  "definitionFiles e a \<noteq> [] \<Longrightarrow>
     findComponentUsage e a =
       (case scanUsages e (tmpl (a ''component_name'')) (allVueFiles e) [] of
          Inl err \<Rightarrow> Inl err
        | Inr usages \<Rightarrow>
            Inr (ok (ComponentUsage
              \<lparr>cu_component_name = a ''component_name'',
               cu_definition_file = relativePath e (hd (definitionFiles e a)),
               cu_definition_domain = extractDomain (hd (definitionFiles e a)),
               cu_usages = usages,
               cu_total_usages = sum_list (map u_usage_count usages),
               cu_files_using = length usages,
               cu_pages_using = length (filter (\<lambda>u. u_file_type u = ''page'') usages),
               cu_components_using =
                 length (filter (\<lambda>u. u_file_type u = ''component'') usages),
               cu_domains_using =
                 setToArray (map the (filter truthy (map u_domain usages)))\<rparr>)))"
  by (cases "truthy (a ''domain'')")
     (auto simp: findComponentUsage_def definitionFiles_def Let_def foldl_usage_sum
        split: list.splits sum.splits)

lemma usage_count_usageOf: "u_usage_count (usageOf e f k) = k"
  by (simp add: usageOf_def)

lemma usage_file_usageOf: "u_file (usageOf e f k) = relativePath e f"
  by (simp add: usageOf_def)

lemma contributes_filter:
  "filter (contributes e n) files
     = filter (\<lambda>f. 0 < tagCount e n f) (filter (importMatches e n) files)"
proof -
  have "contributes e n = (\<lambda>f. importMatches e n f \<and> 0 < tagCount e n f)"
    by (rule ext) (simp add: contributes_def)
  then show ?thesis by simp
qed

lemma literal_patterns:
  "regexLiteral n \<Longrightarrow>
     importMatches e n f = importRegexTest n (contentOf e f)
     \<and> tagCount e n f = templateMatchCount n (contentOf e f)"
  by (simp add: importMatches_def tagCount_def importRegex_test_def templateRegex_matches_def)

lemma engine_patterns:
  "\<not> regexLiteral n \<Longrightarrow>
     importMatches e n f
       = (RegExp_test e (''import.*'' @ n @ ''.*from'') ''i'' (contentOf e f) = Inr True)
     \<and> tagCount e n f
       = (case String_match_length e (contentOf e f) (''<'' @ n) ''gi'' of
            Inl err \<Rightarrow> 0 | Inr k \<Rightarrow> k)"
  by (simp add: importMatches_def tagCount_def importRegex_test_def templateRegex_matches_def)

text \<open>
  Claim C8.  For every component name: when a definition file of the component is found
  and the scan of no component or page file throws, \<^verbatim>\<open>findComponentUsage\<close> lists exactly the
  files whose content matches the import pattern and holds at least one match of the tag
  pattern, in the order of the glob, each with its number of tags; \<^verbatim>\<open>total_usages\<close> is the
  sum of these numbers and \<^verbatim>\<open>files_using\<close> is the number of these files.  A file without a
  match of the import pattern contributes nothing, however many tags it holds, and neither
  does a file without a tag.  When the files that match the import pattern are A, with two
  tags, and B, with none, the usages are the one entry of A with the count 2,
  \<^verbatim>\<open>total_usages\<close> is 2 and \<^verbatim>\<open>files_using\<close> is 1.  The two patterns are the ones computed
  above for a name of literal characters, and what the engine of the runtime makes of
  \<^verbatim>\<open>import.*NAME.*from\<close> and \<^verbatim>\<open><NAME\<close> for every other name.  The operation fails with the
  first exception of the scan, that of a pattern which does not compile included, and with
  \<^verbatim>\<open>Component '...' not found\<close> when no definition file is found.
\<close>

theorem findComponentUsage_counts:
  assumes n: "n = tmpl (a ''component_name'')"
  shows
   "(definitionFiles e a = [] \<longrightarrow>
       findComponentUsage e a =
         Inl (mkError (''Component '' @ [squote] @ n @ [squote] @ '' not found'')))
    \<and> (\<forall>err. definitionFiles e a \<noteq> [] \<and> firstScanError e n (allVueFiles e) = Some err \<longrightarrow>
          findComponentUsage e a = Inl err)
    \<and> (definitionFiles e a \<noteq> [] \<and> firstScanError e n (allVueFiles e) = None \<longrightarrow>
         (\<exists>r. findComponentUsage e a = Inr (ok (ComponentUsage r))
            \<and> cu_usages r = map (\<lambda>f. usageOf e f (tagCount e n f))
                               (filter (contributes e n) (allVueFiles e))
            \<and> map u_file (cu_usages r)
                = map (relativePath e) (filter (contributes e n) (allVueFiles e))
            \<and> map u_usage_count (cu_usages r)
                = map (tagCount e n) (filter (contributes e n) (allVueFiles e))
            \<and> cu_total_usages r
                = sum_list (map (tagCount e n) (filter (contributes e n) (allVueFiles e)))
            \<and> cu_files_using r = length (filter (contributes e n) (allVueFiles e))
            \<and> (\<forall>A B. filter (importMatches e n) (allVueFiles e) = [A, B]
                   \<and> tagCount e n A = 2 \<and> tagCount e n B = 0 \<longrightarrow>
                 map u_file (cu_usages r) = [relativePath e A]
                 \<and> map u_usage_count (cu_usages r) = [2]
                 \<and> cu_total_usages r = 2 \<and> cu_files_using r = 1)))
    \<and> (\<forall>f. \<not> importMatches e n f \<longrightarrow> \<not> contributes e n f)
    \<and> (\<forall>f. tagCount e n f = 0 \<longrightarrow> \<not> contributes e n f)
    \<and> (regexLiteral n \<longrightarrow>
         (\<forall>f. importMatches e n f = importRegexTest n (contentOf e f)
              \<and> tagCount e n f = templateMatchCount n (contentOf e f)))
    \<and> (\<not> regexLiteral n \<longrightarrow>
         (\<forall>f. importMatches e n f
                = (RegExp_test e (''import.*'' @ n @ ''.*from'') ''i'' (contentOf e f) = Inr True)
              \<and> tagCount e n f
                = (case String_match_length e (contentOf e f) (''<'' @ n) ''gi'' of
                     Inl err \<Rightarrow> 0 | Inr k \<Rightarrow> k)))"
proof -
  let ?using = "filter (contributes e n) (allVueFiles e)"
  have absent: "definitionFiles e a = [] \<longrightarrow>
       findComponentUsage e a =
         Inl (mkError (''Component '' @ [squote] @ n @ [squote] @ '' not found''))"
    unfolding n by (rule impI) (rule findComponentUsage_not_found)
  have throws: "\<forall>err. definitionFiles e a \<noteq> [] \<and> firstScanError e n (allVueFiles e) = Some err \<longrightarrow>
          findComponentUsage e a = Inl err"
  proof (intro allI impI, elim conjE)
    fix err
    assume d: "definitionFiles e a \<noteq> []"
      and f: "firstScanError e n (allVueFiles e) = Some err"
    have "scanUsages e n (allVueFiles e) [] = Inl err"
      unfolding scanUsages_result by (simp add: f)
    then show "findComponentUsage e a = Inl err"
      unfolding findComponentUsage_scan[OF d] n by simp
  qed
  have returns: "definitionFiles e a \<noteq> [] \<and> firstScanError e n (allVueFiles e) = None \<longrightarrow>
         (\<exists>r. findComponentUsage e a = Inr (ok (ComponentUsage r))
            \<and> cu_usages r = map (\<lambda>f. usageOf e f (tagCount e n f)) ?using
            \<and> map u_file (cu_usages r) = map (relativePath e) ?using
            \<and> map u_usage_count (cu_usages r) = map (tagCount e n) ?using
            \<and> cu_total_usages r = sum_list (map (tagCount e n) ?using)
            \<and> cu_files_using r = length ?using
            \<and> (\<forall>A B. filter (importMatches e n) (allVueFiles e) = [A, B]
                   \<and> tagCount e n A = 2 \<and> tagCount e n B = 0 \<longrightarrow>
                 map u_file (cu_usages r) = [relativePath e A]
                 \<and> map u_usage_count (cu_usages r) = [2]
                 \<and> cu_total_usages r = 2 \<and> cu_files_using r = 1))"
  proof (intro impI, elim conjE)
    assume d: "definitionFiles e a \<noteq> []"
      and f: "firstScanError e n (allVueFiles e) = None"
    define usages where "usages = map (\<lambda>f. usageOf e f (tagCount e n f)) ?using"
    define r where "r =
       \<lparr>cu_component_name = a ''component_name'',
        cu_definition_file = relativePath e (hd (definitionFiles e a)),
        cu_definition_domain = extractDomain (hd (definitionFiles e a)),
        cu_usages = usages,
        cu_total_usages = sum_list (map u_usage_count usages),
        cu_files_using = length usages,
        cu_pages_using = length (filter (\<lambda>u. u_file_type u = ''page'') usages),
        cu_components_using = length (filter (\<lambda>u. u_file_type u = ''component'') usages),
        cu_domains_using = setToArray (map the (filter truthy (map u_domain usages)))\<rparr>"
    have scan: "scanUsages e n (allVueFiles e) [] = Inr usages"
      unfolding scanUsages_result usages_def by (simp add: f)
    have run: "findComponentUsage e a = Inr (ok (ComponentUsage r))"
      unfolding findComponentUsage_scan[OF d] r_def using scan by (simp add: n)
    have us: "cu_usages r = map (\<lambda>f. usageOf e f (tagCount e n f)) ?using"
      by (simp add: r_def usages_def)
    have tot: "cu_total_usages r = sum_list (map u_usage_count (cu_usages r))"
      by (simp add: r_def)
    have len: "cu_files_using r = length (cu_usages r)"
      by (simp add: r_def)
    have files: "map u_file (cu_usages r) = map (relativePath e) ?using"
      unfolding us by (simp add: comp_def usage_file_usageOf)
    have counts: "map u_usage_count (cu_usages r) = map (tagCount e n) ?using"
      unfolding us by (simp add: comp_def usage_count_usageOf)
    have total: "cu_total_usages r = sum_list (map (tagCount e n) ?using)"
      unfolding tot counts ..
    have cnt: "cu_files_using r = length ?using"
      unfolding len us by simp
    have scenario: "\<forall>A B. filter (importMatches e n) (allVueFiles e) = [A, B]
                   \<and> tagCount e n A = 2 \<and> tagCount e n B = 0 \<longrightarrow>
                 map u_file (cu_usages r) = [relativePath e A]
                 \<and> map u_usage_count (cu_usages r) = [2]
                 \<and> cu_total_usages r = 2 \<and> cu_files_using r = 1"
    proof (intro allI impI, elim conjE)
      fix A B
      assume imp: "filter (importMatches e n) (allVueFiles e) = [A, B]"
        and a: "tagCount e n A = 2" and b: "tagCount e n B = 0"
      have "?using = [A]"
        unfolding contributes_filter imp using a b by simp
      then show "map u_file (cu_usages r) = [relativePath e A]
            \<and> map u_usage_count (cu_usages r) = [2]
            \<and> cu_total_usages r = 2 \<and> cu_files_using r = 1"
        unfolding files counts total cnt using a by simp
    qed
    show "\<exists>r. findComponentUsage e a = Inr (ok (ComponentUsage r))
            \<and> cu_usages r = map (\<lambda>f. usageOf e f (tagCount e n f)) ?using
            \<and> map u_file (cu_usages r) = map (relativePath e) ?using
            \<and> map u_usage_count (cu_usages r) = map (tagCount e n) ?using
            \<and> cu_total_usages r = sum_list (map (tagCount e n) ?using)
            \<and> cu_files_using r = length ?using
            \<and> (\<forall>A B. filter (importMatches e n) (allVueFiles e) = [A, B]
                   \<and> tagCount e n A = 2 \<and> tagCount e n B = 0 \<longrightarrow>
                 map u_file (cu_usages r) = [relativePath e A]
                 \<and> map u_usage_count (cu_usages r) = [2]
                 \<and> cu_total_usages r = 2 \<and> cu_files_using r = 1)"
      by (rule exI[of _ r]) (intro conjI run us files counts total cnt scenario)
  qed
  have noimport: "\<forall>f. \<not> importMatches e n f \<longrightarrow> \<not> contributes e n f"
    by (simp add: contributes_def)
  have notag: "\<forall>f. tagCount e n f = 0 \<longrightarrow> \<not> contributes e n f"
    by (simp add: contributes_def)
  have literal: "regexLiteral n \<longrightarrow>
         (\<forall>f. importMatches e n f = importRegexTest n (contentOf e f)
              \<and> tagCount e n f = templateMatchCount n (contentOf e f))"
    using literal_patterns[of n e] by blast
  have engine: "\<not> regexLiteral n \<longrightarrow>
         (\<forall>f. importMatches e n f
                = (RegExp_test e (''import.*'' @ n @ ''.*from'') ''i'' (contentOf e f) = Inr True)
              \<and> tagCount e n f
                = (case String_match_length e (contentOf e f) (''<'' @ n) ''gi'' of
                     Inl err \<Rightarrow> 0 | Inr k \<Rightarrow> k))"
    using engine_patterns[of n e] by blast
  show ?thesis
    by (intro conjI) (rule absent, rule throws, rule returns, rule noimport, rule notag,
        rule literal, rule engine)
qed

lemma button_facts:
  "filter (importMatches exampleEnv ''Button'') (allVueFiles exampleEnv)
     = [orderIndexVue, toolbarVue]
   \<and> tagCount exampleEnv ''Button'' orderIndexVue = 2
   \<and> tagCount exampleEnv ''Button'' toolbarVue = 0"
  by code_simp

lemma button_own_file:
  "tagCount exampleEnv ''Button'' buttonVue = 1
   \<and> \<not> importMatches exampleEnv ''Button'' buttonVue"
  by code_simp

lemma button_scan:
  "definitionFiles exampleEnv (argsOf [(''component_name'', ''Button'')]) \<noteq> []
   \<and> firstScanError exampleEnv ''Button'' (allVueFiles exampleEnv) = None"
  by code_simp

lemma paren_scan:
  "definitionFiles parenEnv (argsOf [(''component_name'', ''Btn('')]) \<noteq> []
   \<and> firstScanError parenEnv ''Btn('' (allVueFiles parenEnv)
       = Some (Thrown ''SyntaxError''
           ''Invalid regular expression: /import.*Btn(.*from/i: Unterminated group'')"
  by code_simp

lemma card_files: "definitionFiles exampleEnv (argsOf [(''component_name'', ''Card'')]) = []"
  by code_simp

theorem findComponentUsage_counts_witness:
  "(\<exists>r. findComponentUsage exampleEnv (argsOf [(''component_name'', ''Button'')])
          = Inr (ok (ComponentUsage r))
       \<and> map u_file (cu_usages r) = [relativePath exampleEnv orderIndexVue]
       \<and> map u_usage_count (cu_usages r) = [2]
       \<and> cu_total_usages r = 2 \<and> cu_files_using r = 1)
   \<and> tagCount exampleEnv ''Button'' buttonVue = 1
   \<and> \<not> contributes exampleEnv ''Button'' buttonVue
   \<and> findComponentUsage parenEnv (argsOf [(''component_name'', ''Btn('')])
       = Inl (Thrown ''SyntaxError''
           ''Invalid regular expression: /import.*Btn(.*from/i: Unterminated group'')
   \<and> findComponentUsage exampleEnv (argsOf [(''component_name'', ''Card'')])
       = Inl (mkError (''Component '' @ [squote] @ ''Card'' @ [squote] @ '' not found''))"
proof -
  have n1: "''Button'' = tmpl (argsOf [(''component_name'', ''Button'')] ''component_name'')"
    by code_simp
  have n2: "''Btn('' = tmpl (argsOf [(''component_name'', ''Btn('')] ''component_name'')"
    by code_simp
  have n3: "''Card'' = tmpl (argsOf [(''component_name'', ''Card'')] ''component_name'')"
    by code_simp
  note t1 = findComponentUsage_counts[of "''Button''" "argsOf [(''component_name'', ''Button'')]"
      exampleEnv, OF n1]
  note t2 = findComponentUsage_counts[of "''Btn(''" "argsOf [(''component_name'', ''Btn('')]"
      parenEnv, OF n2]
  note t3 = findComponentUsage_counts[of "''Card''" "argsOf [(''component_name'', ''Card'')]"
      exampleEnv, OF n3]
  have own: "tagCount exampleEnv ''Button'' buttonVue = 1"
    by (rule button_own_file[THEN conjunct1])
  have c: "\<not> contributes exampleEnv ''Button'' buttonVue"
    using t1[THEN conjunct2, THEN conjunct2, THEN conjunct2, THEN conjunct1, THEN spec,
        THEN mp, OF button_own_file[THEN conjunct2]] .
  have p: "findComponentUsage parenEnv (argsOf [(''component_name'', ''Btn('')])
       = Inl (Thrown ''SyntaxError''
           ''Invalid regular expression: /import.*Btn(.*from/i: Unterminated group'')"
    using t2[THEN conjunct2, THEN conjunct1, THEN spec, THEN mp, OF paren_scan] .
  have k: "findComponentUsage exampleEnv (argsOf [(''component_name'', ''Card'')])
       = Inl (mkError (''Component '' @ [squote] @ ''Card'' @ [squote] @ '' not found''))"
    using t3[THEN conjunct1, THEN mp, OF card_files] .
  from t1[THEN conjunct2, THEN conjunct2, THEN conjunct1, THEN mp, OF button_scan]
  have b: "\<exists>r. findComponentUsage exampleEnv (argsOf [(''component_name'', ''Button'')])
          = Inr (ok (ComponentUsage r))
       \<and> map u_file (cu_usages r) = [relativePath exampleEnv orderIndexVue]
       \<and> map u_usage_count (cu_usages r) = [2]
       \<and> cu_total_usages r = 2 \<and> cu_files_using r = 1"
  proof (elim exE conjE)
    fix r
    assume run: "findComponentUsage exampleEnv (argsOf [(''component_name'', ''Button'')])
          = Inr (ok (ComponentUsage r))"
    and scenario: "\<forall>A B. filter (importMatches exampleEnv ''Button'') (allVueFiles exampleEnv)
              = [A, B]
            \<and> tagCount exampleEnv ''Button'' A = 2
            \<and> tagCount exampleEnv ''Button'' B = 0 \<longrightarrow>
          map u_file (cu_usages r) = [relativePath exampleEnv A]
          \<and> map u_usage_count (cu_usages r) = [2]
          \<and> cu_total_usages r = 2 \<and> cu_files_using r = 1"
    note s = scenario[rule_format, OF button_facts]
    show ?thesis
      by (rule exI[of _ r]) (rule conjI[OF run s])
  qed
  show ?thesis
    by (intro conjI b own c p k)
qed

section \<open>Double precision and the coverage percentage\<close>

lemma roundTiesEven_error: "\<bar>of_int (roundTiesEven x) - x\<bar> \<le> (1 / 2 :: rat)"
proof -
  define f where "f = \<lfloor>x\<rfloor>"
  define r where "r = x - of_int f"
  have lo: "0 \<le> r" and hi: "r < 1"
    unfolding r_def f_def by linarith+
  have xe: "x = of_int f + r" by (simp add: r_def)
  consider "r < 1 / 2" | "1 / 2 < r" | "r = 1 / 2" by linarith
  then show ?thesis
  proof cases
    case 1
    then have "roundTiesEven x = f"
      by (simp add: roundTiesEven_def Let_def f_def r_def)
    with 1 lo show ?thesis by (simp add: xe)
  next
    case 2
    then have "roundTiesEven x = f + 1"
      by (simp add: roundTiesEven_def Let_def f_def r_def)
    with 2 hi show ?thesis by (simp add: xe)
  next
    case 3
    then have "roundTiesEven x = f \<or> roundTiesEven x = f + 1"
      by (simp add: roundTiesEven_def Let_def f_def r_def)
    with 3 show ?thesis by (auto simp: xe)
  qed
qed

lemma pow2_pos: "0 < (2 :: rat) powi k"
  by simp

lemma pow2_le: "a \<le> b \<Longrightarrow> (2 :: rat) powi a \<le> 2 powi b"
  by (rule power_int_increasing) simp_all

lemma pow2_less: "a < b \<Longrightarrow> (2 :: rat) powi a < 2 powi b"
  by (rule power_int_strict_increasing) simp_all

lemma pow2_add: "(2 :: rat) powi (a + b) = 2 powi a * 2 powi b"
  by (simp add: power_int_add)

lemma pow2_of_nat: "(2 :: rat) powi (int n) = 2 ^ n"
  by simp

lemma pow2_bitlen_lower:
  assumes "0 < a"
  shows "(2 :: rat) powi (bitlen a - 1) \<le> of_int a"
proof -
  have b: "1 \<le> bitlen a" using assms bitlen_eq_zero_iff[of a] bitlen_nonneg[of a] by linarith
  have "(2 :: int) ^ nat (bitlen a - 1) \<le> a"
    using bitlen_bounds[OF assms] by simp
  then have "(of_int ((2 :: int) ^ nat (bitlen a - 1)) :: rat) \<le> of_int a"
    by (simp only: of_int_le_iff)
  moreover have "(2 :: rat) powi (bitlen a - 1) = 2 ^ nat (bitlen a - 1)"
    using b by (simp add: power_int_def)
  ultimately show ?thesis by simp
qed

lemma pow2_bitlen_upper:
  assumes "0 < a"
  shows "(of_int a :: rat) < 2 powi (bitlen a)"
proof -
  have "a < (2 :: int) ^ nat (bitlen a)"
    using bitlen_bounds[OF assms] by simp
  then have "(of_int a :: rat) < of_int ((2 :: int) ^ nat (bitlen a))"
    by (simp only: of_int_less_iff)
  moreover have "(2 :: rat) powi (bitlen a) = 2 ^ nat (bitlen a)"
    using bitlen_nonneg[of a] by (simp add: power_int_def)
  ultimately show ?thesis by simp
qed

lemma floorLog2_bounds:
  assumes x: "0 < x"
  shows "2 powi (floorLog2 x) \<le> x \<and> x < 2 powi (floorLog2 x + 1)"
proof -
  obtain a b where q: "quotient_of x = (a, b)" by (cases "quotient_of x")
  have b: "0 < b" using quotient_of_denom_pos[OF q] .
  have xe: "x = of_int a / of_int b" using quotient_of_div[OF q] .
  have a: "0 < a"
  proof (rule ccontr)
    assume "\<not> 0 < a"
    then have "(of_int a :: rat) \<le> 0" by simp
    then have "x \<le> 0" unfolding xe using b by (simp add: divide_le_0_iff)
    with x show False by simp
  qed
  let ?d = "bitlen a - bitlen b"
  have bpos: "(0 :: rat) < of_int b" using b by simp
  have lowA: "(2 :: rat) powi (bitlen a - 1) \<le> of_int a" by (rule pow2_bitlen_lower[OF a])
  have upA: "(of_int a :: rat) < 2 powi (bitlen a)" by (rule pow2_bitlen_upper[OF a])
  have lowB: "(2 :: rat) powi (bitlen b - 1) \<le> of_int b" by (rule pow2_bitlen_lower[OF b])
  have upB: "(of_int b :: rat) < 2 powi (bitlen b)" by (rule pow2_bitlen_upper[OF b])
  have lower: "2 powi (?d - 1) \<le> x"
  proof -
    have "2 powi (?d - 1) * of_int b \<le> 2 powi (?d - 1) * (2 :: rat) powi (bitlen b)"
      using upB by (intro mult_left_mono) simp_all
    also have "\<dots> = 2 powi (bitlen a - 1)"
      by (simp flip: pow2_add)
    also have "\<dots> \<le> of_int a" by (rule lowA)
    finally show ?thesis unfolding xe using bpos by (simp add: pos_le_divide_eq)
  qed
  have upper: "x < 2 powi (?d + 1)"
  proof -
    have "(of_int a :: rat) < 2 powi (bitlen a)" by (rule upA)
    also have "\<dots> = 2 powi (?d + 1) * 2 powi (bitlen b - 1)"
      by (simp flip: pow2_add)
    also have "\<dots> \<le> 2 powi (?d + 1) * of_int b"
      using lowB by (intro mult_left_mono) simp_all
    finally show ?thesis unfolding xe using bpos by (simp add: pos_divide_less_eq)
  qed
  show ?thesis
  proof (cases "2 powi ?d \<le> x")
    case True
    then have "floorLog2 x = ?d" by (simp add: floorLog2_def q)
    with True upper show ?thesis by simp
  next
    case False
    then have "floorLog2 x = ?d - 1" by (simp add: floorLog2_def q)
    with False lower show ?thesis by simp
  qed
qed

lemma fl64_error:
  assumes x: "0 < x"
  shows "\<bar>fl64 x - x\<bar> \<le> 2 powi (floorLog2 x - 53)"
proof -
  let ?u = "(2 :: rat) powi (floorLog2 x - 52)"
  have u: "0 < ?u" by simp
  have f: "fl64 x = of_int (roundTiesEven (x / ?u)) * ?u"
    using x by (simp add: fl64_def Let_def)
  have "\<bar>fl64 x - x\<bar> = \<bar>of_int (roundTiesEven (x / ?u)) - x / ?u\<bar> * ?u"
  proof -
    have "fl64 x - x = (of_int (roundTiesEven (x / ?u)) - x / ?u) * ?u"
      unfolding f using u by (simp add: algebra_simps)
    then show ?thesis using u by (simp add: abs_mult)
  qed
  also have "\<dots> \<le> (1 / 2) * ?u"
    using roundTiesEven_error[of "x / ?u"] u by (intro mult_right_mono) simp_all
  also have "\<dots> = 2 powi (floorLog2 x - 53)"
  proof -
    have "(2 :: rat) powi (floorLog2 x - 52) = 2 powi (floorLog2 x - 53 + 1)" by simp
    also have "\<dots> = 2 powi (floorLog2 x - 53) * 2" by (simp only: pow2_add) simp
    finally show ?thesis by simp
  qed
  finally show ?thesis .
qed

lemma fl64_error_below:
  assumes x: "0 < x" and m: "x \<le> 2 powi m"
  shows "\<bar>fl64 x - x\<bar> \<le> 2 powi (m - 53)"
proof -
  have "floorLog2 x \<le> m"
  proof (rule ccontr)
    assume "\<not> floorLog2 x \<le> m"
    then have "(2 :: rat) powi m < 2 powi (floorLog2 x)" by (intro pow2_less) simp
    with floorLog2_bounds[OF x] m show False by simp
  qed
  then have "(2 :: rat) powi (floorLog2 x - 53) \<le> 2 powi (m - 53)"
    by (intro pow2_le) simp
  with fl64_error[OF x] show ?thesis by simp
qed

lemma gap_above:
  fixes c :: int and K N :: nat
  assumes N: "0 < N" and lt: "of_int c + 1 / 2 < (100 * of_nat K / of_nat N :: rat)"
  shows "of_int c + 1 / 2 + 1 / (2 * of_nat N) \<le> (100 * of_nat K / of_nat N :: rat)"
proof -
  have Np: "(0 :: rat) < of_nat N" using N by simp
  from lt have "(of_int c + 1 / 2) * of_nat N < (100 * of_nat K :: rat)"
    using Np by (simp add: pos_less_divide_eq)
  then have "(2 * of_int c + 1) * of_nat N < (200 * of_nat K :: rat)"
    by (simp add: algebra_simps)
  then have "(of_int ((2 * c + 1) * int N) :: rat) < of_int (200 * int K)"
    by simp
  then have "(2 * c + 1) * int N < 200 * int K"
    by (simp only: of_int_less_iff)
  then have "(2 * c + 1) * int N + 1 \<le> 200 * int K"
    by simp
  then have "(of_int ((2 * c + 1) * int N + 1) :: rat) \<le> of_int (200 * int K)"
    by (simp only: of_int_le_iff)
  then have "(2 * of_int c + 1) * of_nat N + 1 \<le> (200 * of_nat K :: rat)"
    by simp
  then have "((of_int c + 1 / 2) * of_nat N + 1 / 2) \<le> (100 * of_nat K :: rat)"
    by (simp add: algebra_simps)
  then have "((of_int c + 1 / 2) * of_nat N + 1 / 2) / of_nat N \<le> (100 * of_nat K / of_nat N :: rat)"
    using Np by (simp add: divide_right_mono)
  moreover have "((of_int c + 1 / 2) * of_nat N + 1 / 2) / of_nat N
      = (of_int c + 1 / 2 + 1 / (2 * of_nat N) :: rat)"
    using Np by (simp add: field_simps)
  ultimately show ?thesis by simp
qed

lemma gap_below:
  fixes c :: int and K N :: nat
  assumes N: "0 < N" and lt: "(100 * of_nat K / of_nat N :: rat) < of_int c - 1 / 2"
  shows "(100 * of_nat K / of_nat N :: rat) \<le> of_int c - 1 / 2 - 1 / (2 * of_nat N)"
proof -
  have Np: "(0 :: rat) < of_nat N" using N by simp
  from lt have "(100 * of_nat K :: rat) < (of_int c - 1 / 2) * of_nat N"
    using Np by (simp add: pos_divide_less_eq)
  then have "(200 * of_nat K :: rat) < (2 * of_int c - 1) * of_nat N"
    by (simp add: algebra_simps)
  then have "(of_int (200 * int K) :: rat) < of_int ((2 * c - 1) * int N)"
    by simp
  then have "200 * int K < (2 * c - 1) * int N"
    by (simp only: of_int_less_iff)
  then have "200 * int K + 1 \<le> (2 * c - 1) * int N"
    by simp
  then have "(of_int (200 * int K + 1) :: rat) \<le> of_int ((2 * c - 1) * int N)"
    by (simp only: of_int_le_iff)
  then have "(200 * of_nat K + 1 :: rat) \<le> (2 * of_int c - 1) * of_nat N"
    by simp
  then have "(100 * of_nat K :: rat) \<le> (of_int c - 1 / 2) * of_nat N - 1 / 2"
    by (simp add: algebra_simps)
  then have "(100 * of_nat K / of_nat N :: rat) \<le> ((of_int c - 1 / 2) * of_nat N - 1 / 2) / of_nat N"
    using Np by (simp add: divide_right_mono)
  moreover have "((of_int c - 1 / 2) * of_nat N - 1 / 2) / of_nat N
      = (of_int c - 1 / 2 - 1 / (2 * of_nat N) :: rat)"
    using Np by (simp add: field_simps)
  ultimately show ?thesis by simp
qed

lemma small_gap:
  fixes N :: nat
  assumes "0 < N" "N < 2 ^ 32"
  shows "(1 / 2 ^ 45 :: rat) < 1 / (2 * of_nat N)"
proof -
  have "(of_nat N :: rat) < of_nat (2 ^ 32)" using assms(2) by (simp only: of_nat_less_iff)
  then have "(2 * of_nat N :: rat) < 2 ^ 33" by simp
  also have "\<dots> \<le> (2 ^ 45 :: rat)" by simp
  finally have "(2 * of_nat N :: rat) < 2 ^ 45" .
  moreover have "(0 :: rat) < 2 * of_nat N" using assms(1) by simp
  ultimately show ?thesis by (simp add: frac_less2)
qed

lemma nearest_from_error:
  fixes c :: int and K N :: nat and p :: rat
  assumes N: "0 < N" "N < 2 ^ 32"
      and err: "\<bar>p - 100 * of_nat K / of_nat N\<bar> \<le> 1 / 2 ^ 45"
      and c: "c = \<lfloor>p + 1 / 2\<rfloor>"
  shows "\<bar>of_int c - 100 * of_nat K / of_nat N\<bar> \<le> (1 / 2 :: rat)"
proof -
  let ?t = "100 * of_nat K / of_nat N :: rat"
  have lo: "of_int c \<le> p + 1 / 2" and hi: "p + 1 / 2 < of_int c + 1"
    unfolding c by linarith+
  have g: "(1 / 2 ^ 45 :: rat) < 1 / (2 * of_nat N)" by (rule small_gap[OF N])
  have up: "?t \<le> of_int c + 1 / 2"
  proof (rule ccontr)
    assume "\<not> ?t \<le> of_int c + 1 / 2"
    then have "of_int c + 1 / 2 < ?t" by simp
    from gap_above[OF N(1) this] have "of_int c + 1 / 2 + 1 / (2 * of_nat N) \<le> ?t" .
    with err g hi show False by (simp add: abs_le_iff)
  qed
  have down: "of_int c - 1 / 2 \<le> ?t"
  proof (rule ccontr)
    assume "\<not> of_int c - 1 / 2 \<le> ?t"
    then have "?t < of_int c - 1 / 2" by simp
    from gap_below[OF N(1) this] have "?t \<le> of_int c - 1 / 2 - 1 / (2 * of_nat N)" .
    with err g lo show False by (simp add: abs_le_iff)
  qed
  from up down show ?thesis unfolding abs_le_iff by linarith
qed

lemma round_from_nearest:
  fixes c :: int and t :: rat
  assumes near: "\<bar>of_int c - t\<bar> \<le> 1 / 2" and tie: "frac t \<noteq> 1 / 2"
  shows "c = round t"
proof -
  have ne1: "t \<noteq> of_int c + 1 / 2"
  proof
    assume e: "t = of_int c + 1 / 2"
    have "\<lfloor>t\<rfloor> = c" unfolding e by linarith
    then have "frac t = 1 / 2" unfolding frac_def e by simp
    with tie show False ..
  qed
  have ne2: "t \<noteq> of_int c - 1 / 2"
  proof
    assume e: "t = of_int c - 1 / 2"
    have "\<lfloor>t\<rfloor> = c - 1" unfolding e by linarith
    then have "frac t = 1 / 2" unfolding frac_def e by simp
    with tie show False ..
  qed
  from near ne1 ne2 have "\<bar>t - of_int c\<bar> < 1 / 2" by (simp add: abs_if split: if_splits)
  from round_unique'[OF this] show ?thesis by simp
qed

lemma p53: "(2 :: rat) powi (0 - 53) = 1 / 2 ^ 53"
  by (simp add: power_int_minus_divide)

lemma p46: "(2 :: rat) powi (7 - 53) = 1 / 2 ^ 46"
  by (simp add: power_int_minus_divide)

lemma quotient_error:
  fixes K N :: nat
  assumes K: "0 < K" "K \<le> N"
  shows "\<bar>fl64 (of_nat K / of_nat N) - of_nat K / of_nat N\<bar> \<le> 1 / 2 ^ 53"
proof -
  let ?x = "of_nat K / of_nat N :: rat"
  have N: "0 < N" using K by simp
  have x: "0 < ?x" using K N by simp
  have "?x \<le> 1" using K N by (simp add: divide_le_eq)
  then have "?x \<le> 2 powi 0" by simp
  from fl64_error_below[OF x this] show ?thesis unfolding p53 .
qed

lemma combine_errors:
  fixes p q x a b c :: rat
  assumes "\<bar>p - q * 100\<bar> \<le> a" and "\<bar>q - x\<bar> \<le> b" and "a + 100 * b \<le> c"
  shows "\<bar>p - x * 100\<bar> \<le> c"
  using assms unfolding abs_le_iff by linarith

lemma coverage_nearest:
  fixes K N :: nat
  assumes K: "0 < K" "K \<le> N" and N: "N < 2 ^ 32"
  shows "\<exists>c. coverage_percentage K N = Num (of_int c)
           \<and> \<bar>of_int c - 100 * of_nat K / of_nat N\<bar> \<le> (1 / 2 :: rat)"
proof -
  let ?x = "of_nat K / of_nat N :: rat"
  let ?q = "fl64 ?x"
  let ?y = "?q * 100"
  let ?p = "fl64 ?y"
  let ?c = "\<lfloor>?p + 1 / 2\<rfloor>"
  have Npos: "0 < N" using K by simp
  have cov: "coverage_percentage K N = Num (of_int ?c)"
    using Npos by (simp add: coverage_percentage_def js_div_def)
  have qe: "\<bar>?q - ?x\<bar> \<le> 1 / 2 ^ 53" by (rule quotient_error[OF K])
  have x1: "?x \<le> 1" using K Npos by (simp add: divide_le_eq)
  have xlow: "1 / 2 ^ 32 < ?x"
  proof -
    have "(of_nat N :: rat) < of_nat (2 ^ 32)" using N by (simp only: of_nat_less_iff)
    then have n: "(of_nat N :: rat) < 2 ^ 32" by simp
    have "(1 :: rat) \<le> of_nat K" using K(1) by simp
    have "(1 / 2 ^ 32 :: rat) < 1 / of_nat N"
      using n Npos by (simp add: frac_less2)
    also have "\<dots> \<le> ?x" using \<open>1 \<le> of_nat K\<close> Npos by (simp add: divide_right_mono)
    finally show ?thesis .
  qed
  define d53 where "d53 = (1 / 2 ^ 53 :: rat)"
  define d46 where "d46 = (1 / 2 ^ 46 :: rat)"
  define d45 where "d45 = (1 / 2 ^ 45 :: rat)"
  define d32 where "d32 = (1 / 2 ^ 32 :: rat)"
  have d: "0 < d53" "d53 < d32" "d46 + 100 * d53 \<le> d45" "100 * d53 \<le> 28"
    by (simp_all add: d53_def d46_def d45_def d32_def)
  have qe': "\<bar>?q - ?x\<bar> \<le> d53" using qe by (simp only: d53_def)
  have xlow': "d32 < ?x" using xlow by (simp only: d32_def)
  have qpos: "0 < ?q" using qe' xlow' d by linarith
  have qle: "?q \<le> 1 + d53" using qe' x1 by linarith
  have ypos: "0 < ?y" using qpos by simp
  have "?y \<le> 128" using qle d(4) by linarith
  then have yle: "?y \<le> 2 powi 7" by simp
  have pe: "\<bar>?p - ?y\<bar> \<le> d46"
    using fl64_error_below[OF ypos yle] unfolding p46 d46_def .
  have t: "100 * of_nat K / of_nat N = ?x * 100" by simp
  have "\<bar>?p - ?x * 100\<bar> \<le> d45"
    by (rule combine_errors[OF pe qe' d(3)])
  then have err: "\<bar>?p - 100 * of_nat K / of_nat N\<bar> \<le> 1 / 2 ^ 45"
    unfolding t d45_def .
  have "\<bar>of_int ?c - 100 * of_nat K / of_nat N\<bar> \<le> (1 / 2 :: rat)"
    by (rule nearest_from_error[OF Npos N err refl])
  with cov show ?thesis by blast
qed

lemma coverage_no_files: "coverage_percentage 0 0 = Num 0"
  by (simp add: coverage_percentage_def js_div_def)

lemma floor_half: "\<lfloor>1 / 2 :: rat\<rfloor> = 0"
  by code_simp

lemma coverage_none_tested: "0 < N \<Longrightarrow> coverage_percentage 0 N = Num 0"
  by (simp add: coverage_percentage_def js_div_def fl64_def floor_half)

lemma coverage_half: "coverage_percentage 1 2 = Num 50"
  by code_simp

lemma untestedLoop_eq:
  "untestedLoop e domain file_type files (untested, tested) =
     (untested @ map (\<lambda>f. untestedEntry e domain file_type f (extractClassName f))
                   (filter (\<lambda>f. \<not> hasTests e f) files),
      tested + length (filter (hasTests e) files))"
proof (induction files arbitrary: untested tested)
  case Nil
  then show ?case by simp
next
  case (Cons f fs)
  show ?case
  proof (cases "hasTests e f")
    case True
    then show ?thesis using Cons.IH by (simp add: hasTests_def Let_def)
  next
    case False
    then show ?thesis using Cons.IH by (simp add: hasTests_def Let_def)
  qed
qed

lemma length_filter_not:
  "length (filter (\<lambda>f. \<not> P f) xs) = length xs - length (filter P xs)"
  using sum_length_filter_compl[of P xs] by simp

lemma findUntestedFiles_run:
  assumes d: "a ''domain'' = Some domain"
  shows "findUntestedFiles e a =
     Inr (ok (UntestedReport
       \<lparr>ur_domain = domain,
        ur_file_type_filter = orElse (a ''file_type'') ''all'',
        ur_untested_files =
          map (\<lambda>f. untestedEntry e domain (a ''file_type'') f (extractClassName f))
            (filter (\<lambda>f. \<not> hasTests e f)
               (candidateFiles e (path_join [O2O_BASE_PATH e, ''app'', domain]) (a ''file_type''))),
        ur_total_files =
          length (candidateFiles e (path_join [O2O_BASE_PATH e, ''app'', domain]) (a ''file_type'')),
        ur_tested_files =
          length (filter (hasTests e)
            (candidateFiles e (path_join [O2O_BASE_PATH e, ''app'', domain]) (a ''file_type''))),
        ur_untested_count =
          length (filter (\<lambda>f. \<not> hasTests e f)
            (candidateFiles e (path_join [O2O_BASE_PATH e, ''app'', domain]) (a ''file_type''))),
        ur_coverage_percentage =
          coverage_percentage
            (length (filter (hasTests e)
              (candidateFiles e (path_join [O2O_BASE_PATH e, ''app'', domain]) (a ''file_type''))))
            (length (candidateFiles e (path_join [O2O_BASE_PATH e, ''app'', domain])
              (a ''file_type'')))\<rparr>))"
  by (simp add: findUntestedFiles_def d Let_def untestedLoop_eq)

lemma coverage_cases:
  fixes K N :: nat
  assumes K: "K \<le> N"
  shows "(N = 0 \<longrightarrow> coverage_percentage K N = Num 0)
     \<and> (0 < N \<and> N < 2 ^ 32 \<longrightarrow>
          (\<exists>c. coverage_percentage K N = Num (of_int c)
             \<and> \<bar>of_int c - 100 * of_nat K / of_nat N\<bar> \<le> (1 / 2 :: rat)
             \<and> (frac (100 * of_nat K / of_nat N :: rat) \<noteq> 1 / 2 \<longrightarrow>
                  c = round (100 * of_nat K / of_nat N :: rat))))
     \<and> (N = 2 \<and> K = 1 \<longrightarrow> coverage_percentage K N = Num 50)"
proof (intro conjI impI)
  assume "N = 0"
  with K show "coverage_percentage K N = Num 0" by (simp add: coverage_no_files)
next
  assume "N = 2 \<and> K = 1"
  then show "coverage_percentage K N = Num 50" using coverage_half by simp
next
  assume N: "0 < N \<and> N < 2 ^ 32"
  show "\<exists>c. coverage_percentage K N = Num (of_int c)
             \<and> \<bar>of_int c - 100 * of_nat K / of_nat N\<bar> \<le> (1 / 2 :: rat)
             \<and> (frac (100 * of_nat K / of_nat N :: rat) \<noteq> 1 / 2 \<longrightarrow>
                  c = round (100 * of_nat K / of_nat N :: rat))"
  proof (cases "K = 0")
    case True
    have "coverage_percentage K N = Num (of_int 0)"
      using N True by (simp add: coverage_none_tested)
    moreover have "\<bar>of_int 0 - 100 * of_nat K / of_nat N\<bar> \<le> (1 / 2 :: rat)"
      using True by simp
    moreover have "(0 :: int) = round (100 * of_nat K / of_nat N :: rat)"
      using True by simp
    ultimately show ?thesis by blast
  next
    case False
    then have "0 < K" by simp
    from coverage_nearest[OF this K] N obtain c where
      c: "coverage_percentage K N = Num (of_int c)"
      and near: "\<bar>of_int c - 100 * of_nat K / of_nat N\<bar> \<le> (1 / 2 :: rat)"
      by blast
    have "frac (100 * of_nat K / of_nat N :: rat) \<noteq> 1 / 2 \<longrightarrow>
                  c = round (100 * of_nat K / of_nat N :: rat)"
      using round_from_nearest[OF near] by blast
    with c near show ?thesis by blast
  qed
qed

text \<open>
  Claim C6 as it is stated, at a concrete installation: forty candidate files of which
  twenty-three are tested.  The quotient 23/40 is not a double; the nearest double times
  100 is the double just below 57.5, and \<^verbatim>\<open>Math.round\<close> of it is 57, while 100*23/40 is
  57.5 and rounds to 58.
\<close>

theorem coverage_tie_counterexample:
  "coverageSummary (findUntestedFiles fortyEnv (argsOf [(''domain'', ''Dealer'')]))
     = Some (40, 23, 17, Num 57)
   \<and> round (100 * of_nat 23 / of_nat 40 :: rat) = 58"
  by code_simp

text \<open>
  Claim C6, amended.  With \<open>N\<close> candidate files of which \<open>K\<close> are tested, the summary reports
  \<open>N\<close>, \<open>K\<close> and \<open>N - K\<close>.  For \<open>N = 0\<close> the percentage is 0.  For \<open>0 < N < 2^32\<close>, the
  length of an array, it is an integer within one half of \<open>100 * K / N\<close>, and it is
  \<open>round (100 * K / N)\<close> unless \<open>100 * K / N\<close> lies exactly half-way between two integers.
  For \<open>N = 2\<close> and \<open>K = 1\<close> it is 50.
\<close>

theorem findUntestedFiles_coverage:
  assumes d: "a ''domain'' = Some domain"
      and files: "files = candidateFiles e (path_join [O2O_BASE_PATH e, ''app'', domain])
                            (a ''file_type'')"
      and N: "N = length files"
      and K: "K = length (filter (hasTests e) files)"
  shows "coverageSummary (findUntestedFiles e a) = Some (N, K, N - K, coverage_percentage K N)
     \<and> (N = 0 \<longrightarrow> coverage_percentage K N = Num 0)
     \<and> (0 < N \<and> N < 2 ^ 32 \<longrightarrow>
          (\<exists>c. coverage_percentage K N = Num (of_int c)
             \<and> \<bar>of_int c - 100 * of_nat K / of_nat N\<bar> \<le> (1 / 2 :: rat)
             \<and> (frac (100 * of_nat K / of_nat N :: rat) \<noteq> 1 / 2 \<longrightarrow>
                  c = round (100 * of_nat K / of_nat N :: rat))))
     \<and> (N = 2 \<and> K = 1 \<longrightarrow> coverage_percentage K N = Num 50)"
proof -
  have le: "K \<le> N" unfolding K N by simp
  have s: "coverageSummary (findUntestedFiles e a) = Some (N, K, N - K, coverage_percentage K N)"
    unfolding findUntestedFiles_run[of a domain e, OF d] N K files
    by (simp add: coverageSummary_def ok_def length_filter_not)
  show ?thesis
    by (rule conjI[OF s coverage_cases[OF le]])
qed

lemma customer_files:
  "candidateFiles exampleEnv (path_join [O2O_BASE_PATH exampleEnv, ''app'', ''Customer''])
      (argsOf [(''domain'', ''Customer'')] ''file_type'')
     = [''/srv/o2o/app/Customer/Controllers/BikeController.php'',
        ''/srv/o2o/app/Customer/Models/Invoice.php'']"
  by code_simp

lemma customer_tested:
  "length (filter (hasTests exampleEnv)
     [''/srv/o2o/app/Customer/Controllers/BikeController.php'',
      ''/srv/o2o/app/Customer/Models/Invoice.php'']) = 1"
  by code_simp

lemma bogus_files:
  "candidateFiles exampleEnv (path_join [O2O_BASE_PATH exampleEnv, ''app'', ''Bogus''])
      (argsOf [(''domain'', ''Bogus'')] ''file_type'') = []"
  by code_simp

theorem findUntestedFiles_coverage_witness:
  "coverageSummary (findUntestedFiles exampleEnv (argsOf [(''domain'', ''Customer'')]))
     = Some (2, 1, 1, Num 50)
   \<and> (\<exists>c. coverage_percentage 1 2 = Num (of_int c)
          \<and> \<bar>of_int c - 100 * of_nat 1 / of_nat 2\<bar> \<le> (1 / 2 :: rat)
          \<and> c = round (100 * of_nat 1 / of_nat 2 :: rat))
   \<and> coverageSummary (findUntestedFiles exampleEnv (argsOf [(''domain'', ''Bogus'')]))
     = Some (0, 0, 0, Num 0)"
proof -
  have d: "argsOf [(''domain'', ''Customer'')] ''domain'' = Some ''Customer''"
    by (simp add: argsOf_def)
  have N: "(2 :: nat) = length [''/srv/o2o/app/Customer/Controllers/BikeController.php'',
        ''/srv/o2o/app/Customer/Models/Invoice.php'']"
    by simp
  note t = findUntestedFiles_coverage[of "argsOf [(''domain'', ''Customer'')]" "''Customer''"
      _ exampleEnv 2 1, OF d customer_files[symmetric] N customer_tested[symmetric]]
  have c: "coverage_percentage 1 2 = Num 50"
    using t[THEN conjunct2, THEN conjunct2, THEN conjunct2] by simp
  have first: "coverageSummary (findUntestedFiles exampleEnv (argsOf [(''domain'', ''Customer'')]))
     = Some (2, 1, 1, Num 50)"
    using t[THEN conjunct1] unfolding c by simp
  have range: "0 < (2 :: nat) \<and> (2 :: nat) < 2 ^ 32"
    by simp
  have notie: "frac (100 * of_nat 1 / of_nat 2 :: rat) \<noteq> 1 / 2"
    by (simp add: frac_def)
  from t[THEN conjunct2, THEN conjunct2, THEN conjunct1, THEN mp, OF range]
  have second: "\<exists>c. coverage_percentage 1 2 = Num (of_int c)
          \<and> \<bar>of_int c - 100 * of_nat 1 / of_nat 2\<bar> \<le> (1 / 2 :: rat)
          \<and> c = round (100 * of_nat 1 / of_nat 2 :: rat)"
    using notie by blast
  have d0: "argsOf [(''domain'', ''Bogus'')] ''domain'' = Some ''Bogus''"
    by (simp add: argsOf_def)
  have N0: "(0 :: nat) = length ([] :: string list)"
    by simp
  have K0: "(0 :: nat) = length (filter (hasTests exampleEnv) [])"
    by simp
  note t0 = findUntestedFiles_coverage[of "argsOf [(''domain'', ''Bogus'')]" "''Bogus''"
      _ exampleEnv 0 0, OF d0 bogus_files[symmetric] N0 K0]
  have c0: "coverage_percentage 0 0 = Num 0"
    using t0[THEN conjunct2, THEN conjunct1] by simp
  have third: "coverageSummary (findUntestedFiles exampleEnv (argsOf [(''domain'', ''Bogus'')]))
     = Some (0, 0, 0, Num 0)"
    using t0[THEN conjunct1] unfolding c0 by simp
  show ?thesis
    by (intro conjI first second third)
qed

end
